theory Spec2Isabelle
  imports Complex_Main
begin

section \<open>JavaScript strings\<close>

text \<open>
  The chat-intent edge function works on JavaScript strings, which are sequences of
  UTF-16 code units. A code unit is modelled by its number; string literals of the
  source are written with \<open>str\<close>, characters beyond ASCII by their code units.
\<close>

type_synonym code_unit = nat
type_synonym jsstring = "code_unit list"

definition str :: "string \<Rightarrow> jsstring" where
  "str cs = map of_char cs"

text \<open>
  \<open>String.prototype.toLowerCase\<close>: an ASCII code unit is mapped on its own, \<open>A\<close>..\<open>Z\<close> to
  \<open>a\<close>..\<open>z\<close> and every other one to itself. What a code unit beyond ASCII becomes is
  fixed by the Unicode tables and may depend on its neighbours (final sigma) and be several
  code units long; it is the parameter \<open>U\<close>, which gets the code units before, the
  code unit and the code units after, and about which nothing is assumed.
\<close>

type_synonym unicode_lower = "jsstring \<Rightarrow> code_unit \<Rightarrow> jsstring \<Rightarrow> jsstring"

definition ascii_lower :: "code_unit \<Rightarrow> code_unit" where
  "ascii_lower c = (if 65 \<le> c \<and> c \<le> 90 then c + 32 else c)"

definition ascii_upper :: "code_unit \<Rightarrow> code_unit" where
  "ascii_upper c = (if 97 \<le> c \<and> c \<le> 122 then c - 32 else c)"

fun lower_from :: "unicode_lower \<Rightarrow> jsstring \<Rightarrow> jsstring \<Rightarrow> jsstring" where
  "lower_from U before [] = []"
| "lower_from U before (c # after) =
     (if c < 128 then [ascii_lower c] else U before c after) @ lower_from U (before @ [c]) after"

definition toLowerCase :: "unicode_lower \<Rightarrow> jsstring \<Rightarrow> jsstring" where
  "toLowerCase U s = lower_from U [] s"

text \<open>\<open>String.prototype.startsWith\<close> and \<open>String.prototype.includes\<close> (here \<open>str_includes\<close>): literal substring search.\<close>

fun startsWith :: "jsstring \<Rightarrow> jsstring \<Rightarrow> bool" where
  "startsWith s [] = True"
| "startsWith [] (p # ps) = False"
| "startsWith (c # cs) (p # ps) = (c = p \<and> startsWith cs ps)"

fun str_includes :: "jsstring \<Rightarrow> jsstring \<Rightarrow> bool" where
  "str_includes [] t = (t = [])"
| "str_includes (c # cs) t = (startsWith (c # cs) t \<or> str_includes cs t)"

text \<open>\<open>Array.prototype.join\<close> on an array of strings.\<close>

fun join :: "jsstring \<Rightarrow> jsstring list \<Rightarrow> jsstring" where
  "join sep [] = []"
| "join sep [x] = x"
| "join sep (x # y # ys) = x @ sep @ join sep (y # ys)"

section \<open>Regular expressions of the intent patterns\<close>

text \<open>
  The patterns of \<open>intentPatterns\<close> use literals, alternation, \<open>\b\<close>, \<open>.*\<close> and \<open>?\<close>,
  all with the flag \<open>i\<close> and without the flags \<open>u\<close>, \<open>s\<close> and \<open>g\<close>.
\<close>

datatype regex =
    Literal string
  | Word_boundary
  | Any_star
  | Optional regex
  | Alternation "regex list"
  | Sequence "regex list"

text \<open>
  A matcher state is the code unit just before the current position (\<open>None\<close> at the start
  of the input) and the input that is left.
\<close>

type_synonym mstate = "code_unit option \<times> jsstring"

text \<open>
  With \<open>i\<close> and without \<open>u\<close>, two code units match when their canonical forms agree. The
  canonical form of an ASCII code unit is its ASCII upper case, and that of a code unit
  from 128 on is never below 128; every literal of the patterns is ASCII, so an input code
  unit matches a pattern character exactly when it is ASCII and agrees with it up to case.
\<close>

definition matches_char :: "code_unit \<Rightarrow> char \<Rightarrow> bool" where
  "matches_char c p = (c < 128 \<and> ascii_upper c = ascii_upper (of_char p))"

fun literal :: "string \<Rightarrow> mstate \<Rightarrow> mstate list" where
  "literal [] st = [st]"
| "literal (p # ps) (prev, []) = []"
| "literal (p # ps) (prev, c # cs) =
     (if matches_char c p then literal ps (Some c, cs) else [])"

text \<open>\<open>\w\<close> is \<open>[A-Za-z0-9_]\<close>; \<open>\b\<close> holds where exactly one side is a word character.\<close>

definition is_word_char :: "code_unit \<Rightarrow> bool" where
  "is_word_char c =
     ((48 \<le> c \<and> c \<le> 57) \<or> (65 \<le> c \<and> c \<le> 90) \<or> c = 95 \<or> (97 \<le> c \<and> c \<le> 122))"

definition word_before :: "mstate \<Rightarrow> bool" where
  "word_before st = (case fst st of None \<Rightarrow> False | Some c \<Rightarrow> is_word_char c)"

definition word_after :: "mstate \<Rightarrow> bool" where
  "word_after st = (case snd st of [] \<Rightarrow> False | c # cs \<Rightarrow> is_word_char c)"

definition at_word_boundary :: "mstate \<Rightarrow> bool" where
  "at_word_boundary st = (word_before st \<noteq> word_after st)"

text \<open>\<open>.\<close> matches every code unit but the line terminators LF, CR, U+2028 and U+2029.\<close>

definition is_line_terminator :: "code_unit \<Rightarrow> bool" where
  "is_line_terminator c = (c = 10 \<or> c = 13 \<or> c = 8232 \<or> c = 8233)"

text \<open>
  \<open>.*\<close>: every state reached by consuming some number of code units that are not line
  terminators. \<open>RegExp.prototype.test\<close> asks only whether a match exists, so the order in
  which the backtracking matcher of the engine tries them does not matter here.
\<close>

fun any_star :: "mstate \<Rightarrow> mstate list" where
  "any_star (prev, []) = [(prev, [])]"
| "any_star (prev, c # cs) =
     (prev, c # cs) # (if is_line_terminator c then [] else any_star (Some c, cs))"

text \<open>\<open>run r st\<close>: the states in which a match of \<open>r\<close> that starts in state \<open>st\<close> can end.\<close>

fun run :: "regex \<Rightarrow> mstate \<Rightarrow> mstate list" where
  "run (Literal w) st = literal w st"
| "run Word_boundary st = (if at_word_boundary st then [st] else [])"
| "run Any_star st = any_star st"
| "run (Optional r) st = run r st @ [st]"
| "run (Alternation rs) st = concat (map (\<lambda>r. run r st) rs)"
| "run (Sequence rs) st = fold (\<lambda>r sts. concat (map (run r) sts)) rs [st]"

text \<open>
  \<open>RegExp.prototype.test\<close> without \<open>g\<close> or \<open>y\<close>: is there a match starting at some position
  of the input, the end included.
\<close>

fun search :: "regex \<Rightarrow> code_unit option \<Rightarrow> jsstring \<Rightarrow> bool" where
  "search r prev [] = (run r (prev, []) \<noteq> [])"
| "search r prev (c # cs) = (run r (prev, c # cs) \<noteq> [] \<or> search r (Some c) cs)"

definition test :: "regex \<Rightarrow> jsstring \<Rightarrow> bool" where
  "test r s = search r None s"

section \<open>Intent detection\<close>

definition greeting_words :: "string list" where
  "greeting_words = [''hi'', ''hello'', ''hey'', ''good morning'', ''good afternoon'', ''good evening'']"

definition book_action_words :: "string list" where
  "book_action_words =
     [''book'', ''schedule'', ''appointment'', ''visit'', ''reserve'', ''slot'', ''make'']"

definition book_target_words :: "string list" where
  "book_target_words = [''appointment'', ''doctor'', ''visit'']"

definition symptom_words :: "string list" where
  "symptom_words =
     [''chest pain'', ''sweating'', ''dizzy'', ''faint'', ''fever'', ''swollen'', ''bleeding'',
      ''cough'', ''blood'', ''breath'', ''abdominal pain'', ''symptom'']"

definition cancel_action_words :: "string list" where
  "cancel_action_words = [''cancel'', ''remove'']"

definition cancel_target_words :: "string list" where
  "cancel_target_words = [''appointment'', ''booking'']"

definition emergency_words :: "string list" where
  "emergency_words = [''emergency'', ''urgent'', ''911'', ''ambulance'', ''critical'']"

definition whole_word :: "regex list \<Rightarrow> regex" where
  "whole_word rs = Sequence [Word_boundary, Alternation rs, Word_boundary]"

definition greeting_pattern :: regex where
  "greeting_pattern = whole_word (map Literal greeting_words)"

definition book_appointment_pattern :: regex where
  "book_appointment_pattern =
     Sequence [Word_boundary, Alternation (map Literal book_action_words), Word_boundary,
               Any_star,
               Word_boundary, Alternation (map Literal book_target_words), Word_boundary]"

definition doctor_search_pattern :: regex where
  "doctor_search_pattern =
     whole_word
       [Literal ''find'', Literal ''search'', Literal ''show'', Literal ''list'', Literal ''which'',
        Sequence [Literal ''doctor'', Optional (Literal ''s'')],
        Literal ''cardiologist'', Literal ''orthopedist'', Literal ''pediatrician'',
        Literal ''neurologist'', Literal ''surgeon'', Literal ''specialist'']"

definition faq_hours_pattern :: regex where
  "faq_hours_pattern =
     whole_word
       [Sequence [Literal ''visiting hour'', Optional (Literal ''s'')],
        Sequence [Literal ''opening hour'', Optional (Literal ''s'')],
        Sequence [Literal ''timing'', Optional (Literal ''s'')],
        Literal ''open'', Literal ''close'', Literal ''when'', Literal ''hours'']"

definition symptom_triage_pattern :: regex where
  "symptom_triage_pattern = whole_word (map Literal symptom_words)"

definition cancel_appointment_pattern :: regex where
  "cancel_appointment_pattern =
     Sequence [Word_boundary, Alternation (map Literal cancel_action_words), Word_boundary,
               Any_star,
               Word_boundary, Alternation (map Literal cancel_target_words), Word_boundary]"

definition emergency_pattern :: regex where
  "emergency_pattern = whole_word (map Literal emergency_words)"

definition emergencySymptoms :: "jsstring list" where
  "emergencySymptoms =
     map str [''chest pain'', ''difficulty breathing'', ''shortness of breath'', ''coughing blood'',
              ''severe bleeding'', ''severe abdominal pain'', ''unconscious'', ''stroke'',
              ''heart attack'']"

definition emergency_check :: "jsstring \<Rightarrow> bool" where
  "emergency_check lowerMessage = list_ex (\<lambda>symptom. str_includes lowerMessage symptom) emergencySymptoms"

definition detectIntent :: "unicode_lower \<Rightarrow> jsstring \<Rightarrow> jsstring" where
  "detectIntent U message =
     (let lowerMessage = toLowerCase U message in
      if emergency_check lowerMessage \<or> test emergency_pattern lowerMessage then str ''emergency''
      else if test greeting_pattern lowerMessage then str ''greeting''
      else if test book_appointment_pattern lowerMessage then str ''book_appointment''
      else if test doctor_search_pattern lowerMessage then str ''doctor_search''
      else if test faq_hours_pattern lowerMessage then str ''faq_hours''
      else if test symptom_triage_pattern lowerMessage then str ''symptom_triage''
      else if test cancel_appointment_pattern lowerMessage then str ''cancel_appointment''
      else str ''fallback'')"

section \<open>Response generation\<close>

text \<open>
  A row of the table \<open>doctors\<close> as \<open>select("*")\<close> returns it; of its columns the function
  reads \<open>name\<close>, \<open>specialty\<close>, \<open>days\<close> (an array of strings), \<open>start_hour\<close> and \<open>end_hour\<close>
  (integers).
\<close>

record doctor =
  name :: jsstring
  specialty :: jsstring
  days :: "jsstring list"
  start_hour :: int
  end_hour :: int

text \<open>
  A query built on the client: the table, the selected columns, the column of \<open>order\<close> and
  the column and pattern of \<open>ilike\<close>, each when present. The client maps a query to the
  field \<open>data\<close> of the awaited result, which is \<open>null\<close> (here \<open>None\<close>) when the query failed.
\<close>

record query =
  from_table :: jsstring
  select_columns :: jsstring
  order_column :: "jsstring option"
  ilike_filter :: "(jsstring \<times> jsstring) option"

type_synonym client = "query \<Rightarrow> doctor list option"

text \<open>
  A number in a template literal. The numbers rendered are integers (an array index plus
  one, an \<open>INTEGER\<close> column), which JavaScript prints in decimal.
\<close>

fun digits :: "nat \<Rightarrow> jsstring" where
  "digits n = (if n < 10 then [48 + n] else digits (n div 10) @ [48 + n mod 10])"

declare digits.simps [simp del]

definition number_to_string :: "int \<Rightarrow> jsstring" where
  "number_to_string i = (if i < 0 then 45 # digits (nat (- i)) else digits (nat i))"

definition greeting_text :: jsstring where
  "greeting_text =
     str ''Hello! I'm your HospitalCare assistant. I can help you with:\<newline>\<newline>'' @
     [8226] @ str '' Booking appointments with doctors\<newline>'' @
     [8226] @ str '' Finding specialists by specialty\<newline>'' @
     [8226] @ str '' Visiting hours and hospital information\<newline>'' @
     [8226] @ str '' Basic health questions\<newline>\<newline>'' @
     str ''How can I assist you today?''"

definition no_doctors_text :: jsstring where
  "no_doctors_text =
     str ''I can help you book an appointment. However, there are no doctors available at the moment. Please try again later.''"

definition book_header :: jsstring where
  "book_header =
     str ''I can help you book an appointment! Here are our available doctors:\<newline>\<newline>''"

definition book_prompt :: jsstring where
  "book_prompt =
     str ''Please specify which doctor you'd like to see, or let me know your preferred specialty and I'll help you find the right doctor.''"

definition not_found_text :: jsstring where
  "not_found_text =
     str ''I couldn't find any doctors matching your criteria. Could you please specify the specialty you're looking for? '' @
     str ''We have specialists in Cardiology, Orthopedics, Pediatrics, Neurology, and General Medicine.''"

definition search_header_all :: jsstring where
  "search_header_all =
     str ''Here are our available doctors:\<newline>\<newline>''"

definition search_prompt :: jsstring where
  "search_prompt =
     str ''Would you like to book an appointment with any of these doctors?''"

definition faq_hours_text :: jsstring where
  "faq_hours_text =
     [55356, 57317] @ str '' **Hospital Visiting Hours**\<newline>\<newline>'' @
     [8226] @ str '' General Visiting: 10:00 AM - 8:00 PM\<newline>'' @
     [8226] @ str '' ICU Visiting: 4:00 PM - 5:00 PM\<newline>'' @
     [8226] @ str '' Emergency: Open 24/7\<newline>\<newline>'' @
     str ''**Clinic Hours by Department:**\<newline>'' @
     [8226] @ str '' Outpatient Clinics: Monday-Saturday, 8:00 AM - 8:00 PM\<newline>'' @
     [8226] @ str '' Diagnostic Services: Monday-Saturday, 7:00 AM - 9:00 PM\<newline>'' @
     [8226] @ str '' Pharmacy: Open 24/7\<newline>\<newline>'' @
     str ''Is there anything specific you'd like to know?''"

definition emergency_alert_text :: jsstring where
  "emergency_alert_text =
     [9888, 65039] @ str '' **EMERGENCY ALERT** '' @ [9888, 65039] @ str ''\<newline>\<newline>'' @
     str ''Based on your symptoms, you need immediate medical attention!\<newline>\<newline>'' @
     str ''**Call Emergency Services (911) immediately** or go to the nearest Emergency Room.\<newline>\<newline>'' @
     [55357, 57000] @ str '' Emergency Contact: 911\<newline>'' @
     [55356, 57317] @ str '' Hospital Emergency: +1-555-HOSPITAL\<newline>\<newline>'' @
     str ''Do not wait - seek help now!''"

definition triage_text :: jsstring where
  "triage_text =
     str ''I understand you're experiencing symptoms. While I can provide general information, '' @
     str ''I'm not qualified to diagnose medical conditions.\<newline>\<newline>'' @
     str ''**For proper medical advice:**\<newline>'' @
     [8226] @ str '' If symptoms are severe or worsening '' @ [8594] @ str '' Call 911 or visit Emergency\<newline>'' @
     [8226] @ str '' For non-urgent concerns '' @ [8594] @ str '' I can help you book an appointment with a doctor\<newline>'' @
     [8226] @ str '' For general health questions '' @ [8594] @ str '' I'm here to help with information\<newline>\<newline>'' @
     str ''Would you like me to help you book an appointment with a doctor?''"

definition cancel_text :: jsstring where
  "cancel_text =
     str ''I can help you cancel your appointment. To proceed, please provide:\<newline>\<newline>'' @
     [8226] @ str '' Your appointment reference ID, or\<newline>'' @
     [8226] @ str '' The date and doctor name of your appointment\<newline>\<newline>'' @
     str ''Note: You can also view and manage your appointments through your patient portal.''"

definition emergency_text :: jsstring where
  "emergency_text =
     [55357, 57000] @ str '' **EMERGENCY RESPONSE** '' @ [55357, 57000] @ str ''\<newline>\<newline>'' @
     str ''If this is a life-threatening emergency:\<newline>\<newline>'' @
     str ''**CALL 911 IMMEDIATELY**\<newline>\<newline>'' @
     [55356, 57317] @ str '' Hospital Emergency Room: Open 24/7\<newline>'' @
     [55357, 56542] @ str '' Emergency Hotline: +1-555-HOSPITAL\<newline>'' @
     [55357, 56525] @ str '' Address: 123 Medical Center Drive\<newline>\<newline>'' @
     str ''For urgent but non-life-threatening issues, our emergency department is always open. '' @
     str ''Do not wait if you believe your condition is serious!''"

definition fallback_text :: jsstring where
  "fallback_text =
     str ''I'm not sure I understand. I can help you with:\<newline>\<newline>'' @
     [8226] @ str '' **Book an appointment** - Schedule a visit with our doctors\<newline>'' @
     [8226] @ str '' **Find a doctor** - Search by specialty\<newline>'' @
     [8226] @ str '' **Visiting hours** - Get hospital timing information\<newline>'' @
     [8226] @ str '' **Health questions** - General medical information\<newline>'' @
     [8226] @ str '' **Emergency help** - Urgent medical assistance\<newline>\<newline>'' @
     str ''What would you like help with?''"

text \<open>The body of the \<open>forEach\<close> callback of the case \<open>book_appointment\<close>.\<close>

definition book_entry :: "nat \<Rightarrow> doctor \<Rightarrow> jsstring" where
  "book_entry idx doc =
     number_to_string (int idx + 1) @ str ''. Dr. '' @ name doc @ str '' - '' @ specialty doc @ str ''\<newline>'' @
     str ''   Available: '' @ join (str '', '') (days doc) @ str ''\<newline>'' @
     str ''   Hours: '' @ number_to_string (start_hour doc) @ str '':00 - '' @
       number_to_string (end_hour doc) @ str '':00\<newline>\<newline>''"

definition book_listing :: "doctor list \<Rightarrow> jsstring" where
  "book_listing doctors =
     fold (\<lambda>(idx, doc) response. response @ book_entry idx doc) (enumerate 0 doctors) book_header
     @ book_prompt"

text \<open>The body of the \<open>forEach\<close> callback of the case \<open>doctor_search\<close>.\<close>

definition search_entry :: "doctor \<Rightarrow> jsstring" where
  "search_entry doc =
     [8226] @ str '' Dr. '' @ name doc @ str '' - '' @ specialty doc @ str ''\<newline>'' @
     str ''  Available: '' @ join (str '', '') (days doc) @ str ''\<newline>'' @
     str ''  Hours: '' @ number_to_string (start_hour doc) @ str '':00 - '' @
       number_to_string (end_hour doc) @ str '':00\<newline>\<newline>''"

definition search_header :: "jsstring \<Rightarrow> jsstring" where
  "search_header specialty' =
     (if specialty' \<noteq> [] then str ''Here are our '' @ specialty' @ str '' specialists:\<newline>\<newline>''
      else search_header_all)"

definition search_listing :: "jsstring \<Rightarrow> doctor list \<Rightarrow> jsstring" where
  "search_listing specialty' searchDoctors =
     fold (\<lambda>doc searchResponse. searchResponse @ search_entry doc) searchDoctors
       (search_header specialty')
     @ search_prompt"

text \<open>The \<open>if\<close>/\<open>else if\<close> chain that picks the specialty from the lowercased message.\<close>

definition specialty_of :: "jsstring \<Rightarrow> jsstring" where
  "specialty_of lowerMsg =
     (if str_includes lowerMsg (str ''cardio'') then str ''Cardiology''
      else if str_includes lowerMsg (str ''ortho'') then str ''Orthopedics''
      else if str_includes lowerMsg (str ''pediat'') then str ''Pediatrics''
      else if str_includes lowerMsg (str ''neuro'') then str ''Neurology''
      else if str_includes lowerMsg (str ''general'') then str ''General Medicine''
      else [])"

definition book_query :: query where
  "book_query =
     \<lparr>from_table = str ''doctors'', select_columns = str ''*'',
      order_column = Some (str ''name''), ilike_filter = None\<rparr>"

definition search_query :: "jsstring \<Rightarrow> query" where
  "search_query specialty' =
     \<lparr>from_table = str ''doctors'', select_columns = str ''*'', order_column = None,
      ilike_filter =
        (if specialty' \<noteq> [] then Some (str ''specialty'', str ''%'' @ specialty' @ str ''%'')
         else None)\<rparr>"

text \<open>
  \<open>generateResponse\<close> returns the queries it has sent to the client, in order, and the
  response text.
\<close>

definition generateResponse ::
  "unicode_lower \<Rightarrow> jsstring \<Rightarrow> jsstring \<Rightarrow> client \<Rightarrow> query list \<times> jsstring" where
  "generateResponse U intent message supabaseClient =
     (if intent = str ''greeting'' then ([], greeting_text)
      else if intent = str ''book_appointment'' then
        ([book_query],
         case supabaseClient book_query of
           None \<Rightarrow> no_doctors_text
         | Some doctors \<Rightarrow>
             if length doctors = 0 then no_doctors_text else book_listing doctors)
      else if intent = str ''doctor_search'' then
        (let lowerMsg = toLowerCase U message;
             specialty' = specialty_of lowerMsg
         in ([search_query specialty'],
             case supabaseClient (search_query specialty') of
               None \<Rightarrow> not_found_text
             | Some searchDoctors \<Rightarrow>
                 if length searchDoctors = 0 then not_found_text
                 else search_listing specialty' searchDoctors))
      else if intent = str ''faq_hours'' then ([], faq_hours_text)
      else if intent = str ''symptom_triage'' then
        (let emergencyCheck =
               list_ex (\<lambda>symptom. str_includes (toLowerCase U message) symptom) emergencySymptoms
         in ([], if emergencyCheck then emergency_alert_text else triage_text))
      else if intent = str ''cancel_appointment'' then ([], cancel_text)
      else if intent = str ''emergency'' then ([], emergency_text)
      else ([], fallback_text))"

section \<open>The request handler\<close>

text \<open>
  The value of the field \<open>message\<close> of the parsed request body. A number is falsy when it is
  zero; an object or array is always truthy.
\<close>

datatype js_value =
    JUndefined
  | JNull
  | JBoolean bool
  | JNumber rat
  | JString jsstring
  | JObject

fun truthy :: "js_value \<Rightarrow> bool" where
  "truthy JUndefined = False"
| "truthy JNull = False"
| "truthy (JBoolean b) = b"
| "truthy (JNumber n) = (n \<noteq> 0)"
| "truthy (JString s) = (s \<noteq> [])"
| "truthy JObject = True"

text \<open>A thrown value, with its property \<open>message\<close> when it has one.\<close>

datatype fault = Fault (fault_message: "jsstring option")

text \<open>
  What \<open>req.json()\<close> resolves to: \<open>null\<close>, an object with its fields, or another JSON value
  (a number, a string, a boolean or an array, none of which has a property \<open>message\<close>).
\<close>

datatype json_body =
    Json_null
  | Json_object "jsstring \<rightharpoonup> js_value"
  | Json_other

record request =
  http_method :: jsstring
  json :: "fault + json_body"

text \<open>
  What the runtime brings: the Unicode part of \<open>toLowerCase\<close>, the \<open>TypeError\<close> of
  destructuring \<open>null\<close>, the \<open>TypeError\<close> of calling \<open>toLowerCase\<close> on a value that has no such
  method, and \<open>createClient\<close>, which throws or returns the client.
\<close>

record runtime =
  unicode :: unicode_lower
  destructure_error :: fault
  not_a_function_error :: fault
  createClient :: "fault + client"

record http_response =
  status :: nat
  headers :: "(string \<times> string) list"
  body :: "(string \<times> jsstring) list option"

datatype console_entry = Console_log jsstring | Console_error fault

record outcome =
  response :: http_response
  console :: "console_entry list"
  queries :: "query list"

definition corsHeaders :: "(string \<times> string) list" where
  "corsHeaders =
     [(''Access-Control-Allow-Origin'', ''*''),
      (''Access-Control-Allow-Headers'', ''authorization, x-client-info, apikey, content-type'')]"

definition json_headers :: "(string \<times> string) list" where
  "json_headers = corsHeaders @ [(''Content-Type'', ''application/json'')]"

definition message_required_text :: jsstring where
  "message_required_text =
     str ''Message is required''"

definition unexpected_error_text :: jsstring where
  "unexpected_error_text =
     str ''An unexpected error occurred''"

definition apology_text :: jsstring where
  "apology_text =
     str ''I'm sorry, I encountered an error processing your request. Please try again.''"

text \<open>\<open>const { message, userId } = await req.json()\<close>, for the value of \<open>message\<close>.\<close>

definition destructure_message :: "runtime \<Rightarrow> json_body \<Rightarrow> fault + js_value" where
  "destructure_message rt b =
     (case b of
        Json_null \<Rightarrow> Inl (destructure_error rt)
      | Json_object props \<Rightarrow>
          Inr (case props (str ''message'') of None \<Rightarrow> JUndefined | Some v \<Rightarrow> v)
      | Json_other \<Rightarrow> Inr JUndefined)"

definition bad_request :: outcome where
  "bad_request =
     \<lparr>response = \<lparr>status = 400, headers = json_headers,
                   body = Some [(''error'', message_required_text)]\<rparr>,
      console = [], queries = []\<rparr>"

text \<open>\<open>error?.message || "An unexpected error occurred"\<close>\<close>

definition error_text :: "fault \<Rightarrow> jsstring" where
  "error_text error =
     (case fault_message error of
        None \<Rightarrow> unexpected_error_text
      | Some m \<Rightarrow> if m \<noteq> [] then m else unexpected_error_text)"

definition error_response :: "fault \<Rightarrow> http_response" where
  "error_response error =
     \<lparr>status = 500, headers = json_headers,
      body = Some [(''error'', error_text error), (''intent'', str ''error''),
                   (''response'', apology_text)]\<rparr>"

text \<open>The body of the \<open>try\<close> block: the fault thrown, or the outcome returned.\<close>

definition try_block :: "runtime \<Rightarrow> request \<Rightarrow> fault + outcome" where
  "try_block rt req =
     (case json req of
        Inl error \<Rightarrow> Inl error
      | Inr b \<Rightarrow>
          (case destructure_message rt b of
             Inl error \<Rightarrow> Inl error
           | Inr message \<Rightarrow>
               if \<not> truthy message then Inr bad_request
               else
                 (case createClient rt of
                    Inl error \<Rightarrow> Inl error
                  | Inr supabaseClient \<Rightarrow>
                      (case message of
                         JString m \<Rightarrow>
                           (let intent = detectIntent (unicode rt) m;
                                (sent, reply) = generateResponse (unicode rt) intent m supabaseClient
                            in Inr \<lparr>response = \<lparr>status = 200, headers = json_headers,
                                                  body = Some [(''intent'', intent), (''response'', reply)]\<rparr>,
                                     console = [Console_log (str ''Detected intent: '' @ intent @
                                                  str '' for message: '' @ m)],
                                     queries = sent\<rparr>)
                       | _ \<Rightarrow> Inl (not_a_function_error rt)))))"

definition serve :: "runtime \<Rightarrow> request \<Rightarrow> outcome" where
  "serve rt req =
     (if http_method req = str ''OPTIONS'' then
        \<lparr>response = \<lparr>status = 200, headers = corsHeaders, body = None\<rparr>,
         console = [], queries = []\<rparr>
      else
        (case try_block rt req of
           Inr result \<Rightarrow> result
         | Inl error \<Rightarrow>
             \<lparr>response = error_response error, console = [Console_error error], queries = []\<rparr>))"

section \<open>Notions of the specification\<close>

text \<open>The closed set of intent labels.\<close>

definition intent_labels :: "jsstring list" where
  "intent_labels =
     map str [''greeting'', ''book_appointment'', ''doctor_search'', ''faq_hours'',
              ''symptom_triage'', ''cancel_appointment'', ''emergency'', ''fallback'']"

text \<open>
  The classifier below the emergency override as the specification words it: the patterns
  in their fixed order, the label of the first one that matches, \<open>fallback\<close> when none does.
\<close>

definition ordered_patterns :: "(regex \<times> jsstring) list" where
  "ordered_patterns =
     [(greeting_pattern, str ''greeting''),
      (book_appointment_pattern, str ''book_appointment''),
      (doctor_search_pattern, str ''doctor_search''),
      (faq_hours_pattern, str ''faq_hours''),
      (symptom_triage_pattern, str ''symptom_triage''),
      (cancel_appointment_pattern, str ''cancel_appointment'')]"

definition first_match :: "jsstring \<Rightarrow> jsstring" where
  "first_match lowerMessage =
     (case find (\<lambda>(pattern, label). test pattern lowerMessage) ordered_patterns of
        Some (pattern, label) \<Rightarrow> label
      | None \<Rightarrow> str ''fallback'')"

text \<open>
  A word standing in a text as a whole word, in either case: with nothing or a code unit
  that is not a word character on each side.
\<close>

definition occurs_as_word :: "string \<Rightarrow> jsstring \<Rightarrow> bool" where
  "occurs_as_word w s =
     (\<exists>pre a post. s = pre @ a @ post \<and> map ascii_lower a = str w \<and>
        (pre = [] \<or> \<not> is_word_char (last pre)) \<and>
        (post = [] \<or> \<not> is_word_char (hd post)))"

text \<open>
  The keyword table of the specialty filter as the specification words it: the first
  keyword, in table order, that the lowercased message contains decides; no filter (the
  empty string) when none is contained.
\<close>

definition specialty_keywords :: "(jsstring \<times> jsstring) list" where
  "specialty_keywords =
     [(str ''cardio'', str ''Cardiology''),
      (str ''ortho'', str ''Orthopedics''),
      (str ''pediat'', str ''Pediatrics''),
      (str ''neuro'', str ''Neurology''),
      (str ''general'', str ''General Medicine'')]"

definition table_specialty :: "jsstring \<Rightarrow> jsstring" where
  "table_specialty lowerMsg =
     (case find (\<lambda>(keyword, label). str_includes lowerMsg keyword) specialty_keywords of
        Some (keyword, label) \<Rightarrow> label
      | None \<Rightarrow> [])"

text \<open>
  One numbered entry of the booking list as the specification words it: the number, the
  name, the specialty, the availability days joined by commas, and the hour range.
\<close>

definition hour_range :: "doctor \<Rightarrow> jsstring" where
  "hour_range doc =
     number_to_string (start_hour doc) @ str '':00 - '' @ number_to_string (end_hour doc) @ str '':00''"

definition numbered_entry :: "nat \<Rightarrow> doctor \<Rightarrow> jsstring" where
  "numbered_entry n doc =
     number_to_string (int n) @ str ''. Dr. '' @ name doc @ str '' - '' @ specialty doc @
     str ''\<newline>   Available: '' @ join (str '', '') (days doc) @
     str ''\<newline>   Hours: '' @ hour_range doc @ str ''\<newline>\<newline>''"

text \<open>
  Modelled from the spec: the directory read capability, which the repository leaves to the
  database. The specification asks for "list all doctors ordered by name" and "list doctors
  whose specialty matches a substring (case-insensitive)"; this is the in-memory directory
  it suggests for tests, over a list of doctors kept in name order. An \<open>ilike\<close> filter is
  understood when it is on the column \<open>specialty\<close> and its pattern is a substring between
  two \<open>%\<close>; any other filter makes the query fail.
\<close>

definition contains_ci :: "unicode_lower \<Rightarrow> jsstring \<Rightarrow> jsstring \<Rightarrow> bool" where
  "contains_ci U s sub = str_includes (toLowerCase U s) (toLowerCase U sub)"

definition pattern_substring :: "jsstring \<Rightarrow> jsstring option" where
  "pattern_substring p =
     (if 2 \<le> length p \<and> hd p = 37 \<and> last p = 37 then Some (butlast (tl p)) else None)"

definition directory_client :: "unicode_lower \<Rightarrow> doctor list \<Rightarrow> client" where
  "directory_client U directory q =
     (case ilike_filter q of
        None \<Rightarrow> Some directory
      | Some (column, pattern) \<Rightarrow>
          (case pattern_substring pattern of
             None \<Rightarrow> None
           | Some sub \<Rightarrow>
               if column = str ''specialty''
               then Some (filter (\<lambda>doc. contains_ci U (specialty doc) sub) directory)
               else None))"

text \<open>The code unit before the position reached after the text \<open>pre\<close>.\<close>

definition last_unit :: "code_unit option \<Rightarrow> jsstring \<Rightarrow> code_unit option" where
  "last_unit prev pre = (if pre = [] then prev else Some (last pre))"

section \<open>Concrete inputs\<close>

text \<open>A lowercasing that leaves every code unit beyond ASCII as it is.\<close>

definition identity_lower :: unicode_lower where
  "identity_lower before c after = [c]"

text \<open>A client whose every query fails.\<close>

definition failing_client :: client where
  "failing_client q = None"

text \<open>Two rows of the seeded table \<open>doctors\<close>, in name order.\<close>

definition kumar :: doctor where
  "kumar =
     \<lparr>name = str ''Dr. David Kumar'', specialty = str ''Neurology'',
      days = map str [''Monday'', ''Tuesday'', ''Thursday'', ''Friday''],
      start_hour = 9, end_hour = 17\<rparr>"

definition johnson :: doctor where
  "johnson =
     \<lparr>name = str ''Dr. Sarah Johnson'', specialty = str ''Cardiology'',
      days = map str [''Monday'', ''Tuesday'', ''Wednesday'', ''Thursday'', ''Friday''],
      start_hour = 9, end_hour = 17\<rparr>"

text \<open>A runtime whose \<open>createClient\<close> returns a given client, and a POST request with a given \<open>message\<close>.\<close>

definition runtime_with :: "client \<Rightarrow> runtime" where
  "runtime_with c =
     \<lparr>unicode = identity_lower,
      destructure_error = Fault (Some (str ''Cannot destructure property of null'')),
      not_a_function_error = Fault (Some (str ''message.toLowerCase is not a function'')),
      createClient = Inr c\<rparr>"

definition post_message :: "js_value option \<Rightarrow> request" where
  "post_message v = \<lparr>http_method = str ''POST'', json = Inr (Json_object (Map.empty(str ''message'' := v)))\<rparr>"


section \<open>Properties\<close>

subsection \<open>Evaluation on concrete inputs\<close>

lemmas pattern_defs =
  greeting_pattern_def book_appointment_pattern_def doctor_search_pattern_def
  faq_hours_pattern_def symptom_triage_pattern_def cancel_appointment_pattern_def
  emergency_pattern_def whole_word_def greeting_words_def book_action_words_def
  book_target_words_def symptom_words_def cancel_action_words_def cancel_target_words_def
  emergency_words_def

lemmas matcher_defs =
  test_def ascii_upper_def matches_char_def is_word_char_def word_before_def word_after_def
  at_word_boundary_def is_line_terminator_def

lemmas detect_defs =
  detectIntent_def toLowerCase_def ascii_lower_def str_def emergency_check_def
  emergencySymptoms_def pattern_defs matcher_defs

lemma detect_book: "detectIntent U (str ''I want to book an appointment'') = str ''book_appointment''"
  by (simp add: detect_defs)

lemma detect_chest_pain:
  "detectIntent U (str ''I have severe chest pain and need an appointment'') = str ''emergency''"
  by (simp add: detect_defs)

lemma detect_hello: "detectIntent U (str ''hello'') = str ''greeting''"
  by (simp add: detect_defs)

lemma detect_when: "detectIntent U (str ''when do you open'') = str ''faq_hours''"
  by (simp add: detect_defs)

lemma detect_nonsense: "detectIntent U (str ''xyz nonsense'') = str ''fallback''"
  by (simp add: detect_defs)

lemma detect_appointment: "detectIntent U (str ''appointment'') = str ''fallback''"
  by (simp add: detect_defs)

lemma detect_blank: "detectIntent U (str ''   '') = str ''fallback''"
  by (simp add: detect_defs)

lemma detect_fever: "detectIntent U (str ''i have a fever'') = str ''symptom_triage''"
  by (simp add: detect_defs)

lemma startsWith_iff: "startsWith s t \<longleftrightarrow> (\<exists>post. s = t @ post)"
  by (induction s t rule: startsWith.induct) auto

lemma str_includes_iff: "str_includes s t \<longleftrightarrow> (\<exists>pre post. s = pre @ t @ post)"
proof (induction s)
  case Nil
  show ?case by auto
next
  case (Cons c cs)
  have "(\<exists>pre post. c # cs = pre @ t @ post) \<longleftrightarrow>
        (\<exists>post. c # cs = t @ post) \<or> (\<exists>pre post. cs = pre @ t @ post)"
    by (auto simp: Cons_eq_append_conv)
  with Cons show ?case by (simp add: startsWith_iff)
qed

subsection \<open>The matcher\<close>

lemma step_append:
  "fold (\<lambda>r sts. concat (map (run r) sts)) rs (xs @ ys) =
   fold (\<lambda>r sts. concat (map (run r) sts)) rs xs @ fold (\<lambda>r sts. concat (map (run r) sts)) rs ys"
  by (induction rs arbitrary: xs ys) simp_all

lemma step_Nil: "fold (\<lambda>r sts. concat (map (run r) sts)) rs [] = []"
  by (induction rs) simp_all

lemma step_concat:
  "fold (\<lambda>r sts. concat (map (run r) sts)) rs xs =
   concat (map (\<lambda>x. fold (\<lambda>r sts. concat (map (run r) sts)) rs [x]) xs)"
proof (induction xs)
  case Nil
  show ?case by (simp add: step_Nil)
next
  case (Cons x xs)
  have "fold (\<lambda>r sts. concat (map (run r) sts)) rs (x # xs) =
        fold (\<lambda>r sts. concat (map (run r) sts)) rs ([x] @ xs)" by simp
  also have "\<dots> = fold (\<lambda>r sts. concat (map (run r) sts)) rs [x] @
                    fold (\<lambda>r sts. concat (map (run r) sts)) rs xs"
    by (rule step_append)
  finally show ?case using Cons by simp
qed

lemma run_Sequence_Nil: "run (Sequence []) st = [st]"
  by simp

lemma run_Sequence_Cons: "run (Sequence (r # rs)) st = concat (map (run (Sequence rs)) (run r st))"
proof -
  have "run (Sequence (r # rs)) st = fold (\<lambda>r sts. concat (map (run r) sts)) rs (run r st)"
    by simp
  also have "\<dots> = concat (map (\<lambda>x. fold (\<lambda>r sts. concat (map (run r) sts)) rs [x]) (run r st))"
    by (rule step_concat)
  also have "(\<lambda>x. fold (\<lambda>r sts. concat (map (run r) sts)) rs [x]) = run (Sequence rs)"
    by (rule ext) simp
  finally show ?thesis .
qed

lemma in_run_Sequence_Cons:
  "st' \<in> set (run (Sequence (r # rs)) st) \<longleftrightarrow>
   (\<exists>st1 \<in> set (run r st). st' \<in> set (run (Sequence rs) st1))"
  unfolding run_Sequence_Cons by auto

lemma in_run_Word_boundary:
  "st' \<in> set (run Word_boundary st) \<longleftrightarrow> st' = st \<and> at_word_boundary st"
  by auto

lemma in_run_words:
  "st' \<in> set (run (Alternation (map Literal ws)) st) \<longleftrightarrow> (\<exists>w \<in> set ws. st' \<in> set (literal w st))"
  by auto

lemma literal_consumes:
  "st' \<in> set (literal w (prev, s)) \<Longrightarrow>
   \<exists>a. s = a @ snd st' \<and> list_all2 matches_char a w \<and> fst st' = last_unit prev a"
proof (induction w arbitrary: prev s)
  case Nil
  then show ?case by (simp add: last_unit_def)
next
  case (Cons p ps)
  show ?case
  proof (cases s)
    case Nil
    with Cons.prems show ?thesis by simp
  next
    case (Cons c cs)
    with Cons.prems have m: "matches_char c p" and r: "st' \<in> set (literal ps (Some c, cs))"
      by (auto split: if_splits)
    from Cons.IH [OF r] obtain a where a: "cs = a @ snd st'" "list_all2 matches_char a ps"
      "fst st' = last_unit (Some c) a"
      by blast
    have "last_unit (Some c) a = last_unit prev (c # a)" by (simp add: last_unit_def)
    with m a Cons have "s = (c # a) @ snd st' \<and> list_all2 matches_char (c # a) (p # ps) \<and>
        fst st' = last_unit prev (c # a)"
      by simp
    then show ?thesis by blast
  qed
qed

lemma any_star_consumes:
  "st' \<in> set (any_star (prev, s)) \<Longrightarrow>
   \<exists>mid. s = mid @ snd st' \<and> fst st' = last_unit prev mid \<and>
     (\<forall>c \<in> set mid. \<not> is_line_terminator c)"
proof (induction s arbitrary: prev)
  case Nil
  then show ?case by (simp add: last_unit_def)
next
  case (Cons c cs)
  from Cons.prems consider "st' = (prev, c # cs)"
    | "\<not> is_line_terminator c" "st' \<in> set (any_star (Some c, cs))"
    by (auto split: if_splits)
  then show ?case
  proof cases
    case 1
    then have "c # cs = [] @ snd st' \<and> fst st' = last_unit prev [] \<and>
        (\<forall>c \<in> set []. \<not> is_line_terminator c)"
      by (simp add: last_unit_def)
    then show ?thesis by blast
  next
    case 2
    from Cons.IH [OF 2(2)] obtain mid where mid: "cs = mid @ snd st'"
      "fst st' = last_unit (Some c) mid" "\<forall>c \<in> set mid. \<not> is_line_terminator c"
      by blast
    have "last_unit (Some c) mid = last_unit prev (c # mid)" by (simp add: last_unit_def)
    with mid 2(1) have "c # cs = (c # mid) @ snd st' \<and> fst st' = last_unit prev (c # mid) \<and>
        (\<forall>c \<in> set (c # mid). \<not> is_line_terminator c)"
      by simp
    then show ?thesis by blast
  qed
qed

lemma search_splits:
  "search r prev s \<Longrightarrow> \<exists>pre rest. s = pre @ rest \<and> run r (last_unit prev pre, rest) \<noteq> []"
proof (induction s arbitrary: prev)
  case Nil
  then have "run r (last_unit prev [], []) \<noteq> []" by (simp add: last_unit_def)
  then show ?case by simp
next
  case (Cons c cs)
  from Cons.prems consider "run r (prev, c # cs) \<noteq> []" | "search r (Some c) cs" by auto
  then show ?case
  proof cases
    case 1
    then have "c # cs = [] @ (c # cs) \<and> run r (last_unit prev [], c # cs) \<noteq> []"
      by (simp add: last_unit_def)
    then show ?thesis by blast
  next
    case 2
    from Cons.IH [OF 2] obtain pre rest where
      "cs = pre @ rest" "run r (last_unit (Some c) pre, rest) \<noteq> []"
      by blast
    moreover have "last_unit (Some c) pre = last_unit prev (c # pre)" by (simp add: last_unit_def)
    ultimately have "c # cs = (c # pre) @ rest \<and> run r (last_unit prev (c # pre), rest) \<noteq> []"
      by simp
    then show ?thesis by blast
  qed
qed

lemma compound_consumes:
  assumes "st' \<in> set (run (Sequence [Word_boundary, Alternation (map Literal ws1), Word_boundary,
                                    Any_star,
                                    Word_boundary, Alternation (map Literal ws2), Word_boundary])
                         (prev, s))"
  shows "\<exists>a mid t. s = a @ mid @ t @ snd st' \<and>
           (\<exists>w \<in> set ws1. list_all2 matches_char a w) \<and>
           (\<exists>w \<in> set ws2. list_all2 matches_char t w) \<and>
           (\<forall>c \<in> set mid. \<not> is_line_terminator c) \<and>
           at_word_boundary (prev, a @ mid @ t @ snd st') \<and>
           at_word_boundary (last_unit prev a, mid @ t @ snd st') \<and>
           at_word_boundary (last_unit (last_unit prev a) mid, t @ snd st') \<and>
           at_word_boundary (last_unit (last_unit (last_unit prev a) mid) t, snd st')"
proof -
  from assms obtain st2 st4 w1 w2 where
    b0: "at_word_boundary (prev, s)" and
    w1: "w1 \<in> set ws1" and s2: "st2 \<in> set (literal w1 (prev, s))" and
    b1: "at_word_boundary st2" and
    s4: "st4 \<in> set (any_star st2)" and
    b2: "at_word_boundary st4" and
    w2: "w2 \<in> set ws2" and s6: "st' \<in> set (literal w2 st4)" and
    b3: "at_word_boundary st'"
    unfolding in_run_Sequence_Cons in_run_Word_boundary in_run_words run_Sequence_Nil
    by auto
  from literal_consumes [OF s2] obtain a where
    a: "s = a @ snd st2" "list_all2 matches_char a w1" "fst st2 = last_unit prev a"
    by blast
  from any_star_consumes [of st4 "fst st2" "snd st2"] s4 obtain mid where
    mid: "snd st2 = mid @ snd st4" "fst st4 = last_unit (fst st2) mid"
    "\<forall>c \<in> set mid. \<not> is_line_terminator c"
    by auto
  from literal_consumes [of st' w2 "fst st4" "snd st4"] s6 obtain t where
    t: "snd st4 = t @ snd st'" "list_all2 matches_char t w2" "fst st' = last_unit (fst st4) t"
    by auto
  have e2: "st2 = (last_unit prev a, mid @ t @ snd st')"
    using a(3) mid(1) t(1) by (simp add: prod_eq_iff)
  have e4: "st4 = (last_unit (last_unit prev a) mid, t @ snd st')"
    using a(3) mid(2) t(1) by (simp add: prod_eq_iff)
  have e6: "st' = (last_unit (last_unit (last_unit prev a) mid) t, snd st')"
    using a(3) mid(2) t(3) by (simp add: prod_eq_iff)
  have s: "s = a @ mid @ t @ snd st'" using a(1) mid(1) t(1) by simp
  from b0 s have c0: "at_word_boundary (prev, a @ mid @ t @ snd st')" by simp
  from b1 e2 have c1: "at_word_boundary (last_unit prev a, mid @ t @ snd st')" by simp
  from b2 e4 have c2: "at_word_boundary (last_unit (last_unit prev a) mid, t @ snd st')" by simp
  from b3 e6 have c3: "at_word_boundary (last_unit (last_unit (last_unit prev a) mid) t, snd st')"
    by simp
  from s a(2) t(2) w1 w2 mid(3) c0 c1 c2 c3 show ?thesis by blast
qed

lemma boundary_after_word:
  "at_word_boundary (last_unit p a, s) \<Longrightarrow> a \<noteq> [] \<Longrightarrow> is_word_char (last a) \<Longrightarrow>
   s = [] \<or> \<not> is_word_char (hd s)"
  by (cases s) (auto simp: at_word_boundary_def word_before_def word_after_def last_unit_def)

lemma boundary_before_word:
  "at_word_boundary (last_unit p pre, s) \<Longrightarrow> s \<noteq> [] \<Longrightarrow> is_word_char (hd s) \<Longrightarrow>
   (pre = [] \<and> (case p of None \<Rightarrow> True | Some c \<Rightarrow> \<not> is_word_char c)) \<or>
   (pre \<noteq> [] \<and> \<not> is_word_char (last pre))"
  by (cases s; cases p)
    (auto simp: at_word_boundary_def word_before_def word_after_def last_unit_def split: if_splits)

lemma lower_word_ends:
  assumes "map ascii_lower a = str w" "w \<noteq> []"
    "is_word_char (of_char (hd w))" "is_word_char (of_char (last w))"
  shows "a \<noteq> [] \<and> is_word_char (hd a) \<and> is_word_char (last a)"
proof -
  from assms(1,2) have ne: "a \<noteq> []" by (auto simp: str_def)
  have "ascii_lower (hd a) = hd (map ascii_lower a)" "ascii_lower (last a) = last (map ascii_lower a)"
    using ne by (simp_all add: hd_map last_map)
  moreover have "hd (str w) = of_char (hd w)" "last (str w) = of_char (last w)"
    using assms(2) by (simp_all add: str_def hd_map last_map)
  ultimately have "ascii_lower (hd a) = of_char (hd w)" "ascii_lower (last a) = of_char (last w)"
    using assms(1) by simp_all
  with assms(3,4) have "is_word_char (ascii_lower (hd a))" "is_word_char (ascii_lower (last a))"
    by simp_all
  then have "is_word_char (hd a)" "is_word_char (last a)"
    by (auto simp: is_word_char_def ascii_lower_def split: if_splits)
  with ne show ?thesis by simp
qed

lemma matches_char_lower: "matches_char c p \<Longrightarrow> ascii_lower c = ascii_lower (of_char p)"
  by (auto simp: matches_char_def ascii_lower_def ascii_upper_def split: if_splits)

lemma literal_match_lower:
  "list_all2 matches_char a w \<Longrightarrow> map ascii_lower a = map ascii_lower (str w)"
  by (induction a w rule: list_all2_induct) (auto simp: str_def matches_char_lower)

lemma lower_matches_char:
  "(of_char p :: nat) < 128 \<Longrightarrow> ascii_lower c = of_char p \<Longrightarrow> matches_char c p"
  by (auto simp: matches_char_def ascii_lower_def ascii_upper_def split: if_splits)

lemma lower_literal_match:
  "\<forall>p \<in> set w. (of_char p :: nat) < 128 \<Longrightarrow> map ascii_lower a = str w \<Longrightarrow>
   list_all2 matches_char a w"
proof (induction w arbitrary: a)
  case Nil
  then show ?case by (simp add: str_def)
next
  case (Cons p ps)
  from Cons.prems(2) obtain c cs where a: "a = c # cs" "ascii_lower c = of_char p"
    "map ascii_lower cs = str ps"
    by (cases a) (auto simp: str_def)
  with Cons show ?case by (simp add: lower_matches_char)
qed

lemma literal_complete:
  "list_all2 matches_char a w \<Longrightarrow> (last_unit prev a, post) \<in> set (literal w (prev, a @ post))"
proof (induction a w arbitrary: prev rule: list_all2_induct)
  case Nil
  show ?case by (simp add: last_unit_def)
next
  case (Cons c cs p ps)
  have "last_unit (Some c) cs = last_unit prev (c # cs)" by (simp add: last_unit_def)
  with Cons.IH [of "Some c"] Cons.hyps(1) show ?case by simp
qed

lemma search_complete:
  "run r (last_unit prev pre, rest) \<noteq> [] \<Longrightarrow> search r prev (pre @ rest)"
proof (induction pre arbitrary: prev)
  case Nil
  then show ?case by (cases rest) (simp_all add: last_unit_def)
next
  case (Cons c cs)
  have "last_unit (Some c) cs = last_unit prev (c # cs)" by (simp add: last_unit_def)
  with Cons.prems have "run r (last_unit (Some c) cs, rest) \<noteq> []" by simp
  then have "search r (Some c) (cs @ rest)" by (rule Cons.IH)
  then show ?case by simp
qed

lemma word_char_lower: "is_word_char (ascii_lower c) \<longleftrightarrow> is_word_char c"
  by (auto simp: is_word_char_def ascii_lower_def)

lemma whole_word_complete:
  assumes w: "w \<in> set ws" "w \<noteq> []" "\<forall>p \<in> set w. (of_char p :: nat) < 128"
    "is_word_char (of_char (hd w))" "is_word_char (of_char (last w))"
    and o: "occurs_as_word w s"
  shows "test (whole_word (map Literal ws)) s"
proof -
  from o obtain pre a post where s: "s = pre @ a @ post" and a: "map ascii_lower a = str w"
    and l: "pre = [] \<or> \<not> is_word_char (last pre)"
    and r: "post = [] \<or> \<not> is_word_char (hd post)"
    unfolding occurs_as_word_def by blast
  from a w(2) have ne: "a \<noteq> []" by (auto simp: str_def)
  have "ascii_lower (hd a) = hd (map ascii_lower a)" "ascii_lower (last a) = last (map ascii_lower a)"
    using ne by (simp_all add: hd_map last_map)
  moreover have "hd (str w) = of_char (hd w)" "last (str w) = of_char (last w)"
    using w(2) by (simp_all add: str_def hd_map last_map)
  ultimately have "ascii_lower (hd a) = of_char (hd w)" "ascii_lower (last a) = of_char (last w)"
    using a by simp_all
  with w(4,5) have wc: "is_word_char (hd a)" "is_word_char (last a)"
    using word_char_lower by metis+
  let ?st0 = "(last_unit None pre, a @ post)"
  let ?st1 = "(last_unit (last_unit None pre) a, post)"
  from ne wc(1) l have b0: "at_word_boundary ?st0"
    by (cases a) (auto simp: at_word_boundary_def word_before_def word_after_def last_unit_def)
  from ne wc(2) r have b1: "at_word_boundary ?st1"
    by (cases post) (auto simp: at_word_boundary_def word_before_def word_after_def last_unit_def)
  from lower_literal_match [OF w(3) a] have "?st1 \<in> set (literal w ?st0)"
    by (rule literal_complete)
  with w(1) have "?st1 \<in> set (run (Alternation (map Literal ws)) ?st0)"
    unfolding in_run_words by blast
  with b0 b1 have "?st1 \<in> set (run (whole_word (map Literal ws)) ?st0)"
    unfolding whole_word_def in_run_Sequence_Cons in_run_Word_boundary run_Sequence_Nil
    by auto
  then have "run (whole_word (map Literal ws)) ?st0 \<noteq> []" by auto
  then have "search (whole_word (map Literal ws)) None (pre @ a @ post)" by (rule search_complete)
  with s show ?thesis by (simp add: test_def)
qed

lemma emergency_words_shape:
  "w \<in> set emergency_words \<Longrightarrow>
   w \<noteq> [] \<and> (\<forall>p \<in> set w. (of_char p :: nat) < 128) \<and>
   is_word_char (of_char (hd w)) \<and> is_word_char (of_char (last w))"
  by (auto simp: emergency_words_def is_word_char_def)

lemma emergency_word_matches:
  "w \<in> set emergency_words \<Longrightarrow> occurs_as_word w s \<Longrightarrow> test emergency_pattern s"
  unfolding emergency_pattern_def using emergency_words_shape [of w]
  by (intro whole_word_complete [of w]) auto

subsection \<open>Classification\<close>

lemma labels_distinct: "distinct intent_labels"
  by (simp add: intent_labels_def str_def)

lemma detectIntent_cases:
  "detectIntent U m =
     (if emergency_check (toLowerCase U m) \<or> test emergency_pattern (toLowerCase U m)
      then str ''emergency'' else first_match (toLowerCase U m))"
  by (simp add: detectIntent_def first_match_def ordered_patterns_def Let_def)

lemma first_match_label: "first_match l \<in> set intent_labels"
  by (simp add: first_match_def ordered_patterns_def intent_labels_def)

lemma emergency_check_iff:
  "emergency_check l \<longleftrightarrow> (\<exists>symptom \<in> set emergencySymptoms. \<exists>pre post. l = pre @ symptom @ post)"
  by (simp add: emergency_check_def list_ex_iff str_includes_iff)

text \<open>
  C7. The end-to-end examples of classification: "I want to book an appointment" is
  \<open>book_appointment\<close>; "I have severe chest pain and need an appointment" is \<open>emergency\<close> and
  not \<open>book_appointment\<close>; "hello" is \<open>greeting\<close>; "when do you open" is \<open>faq_hours\<close>;
  "xyz nonsense" is \<open>fallback\<close>. They hold whatever \<open>toLowerCase\<close> does beyond ASCII.
\<close>
theorem detectIntent_examples:
  "detectIntent U (str ''I want to book an appointment'') = str ''book_appointment'' \<and>
   detectIntent U (str ''I have severe chest pain and need an appointment'') = str ''emergency'' \<and>
   detectIntent U (str ''I have severe chest pain and need an appointment'') \<noteq> str ''book_appointment'' \<and>
   detectIntent U (str ''hello'') = str ''greeting'' \<and>
   detectIntent U (str ''when do you open'') = str ''faq_hours'' \<and>
   detectIntent U (str ''xyz nonsense'') = str ''fallback''"
proof -
  have "str ''emergency'' \<noteq> str ''book_appointment''" by (simp add: str_def)
  then show ?thesis
    by (simp only: detect_book detect_chest_pain detect_hello detect_when detect_nonsense) simp
qed

text \<open>
  C1. Emergency priority: when the lowercased message contains a phrase of
  \<open>emergencySymptoms\<close> as a literal substring, or one of the words emergency, urgent, 911,
  ambulance, critical as a whole word, or the emergency keyword pattern matches it,
  \<open>detectIntent\<close> returns \<open>emergency\<close>, whatever greeting, booking, search or symptom language
  the message also holds.
\<close>
theorem emergency_priority:
  assumes "(\<exists>symptom \<in> set emergencySymptoms. \<exists>pre post. toLowerCase U m = pre @ symptom @ post) \<or>
           (\<exists>w \<in> set emergency_words. occurs_as_word w (toLowerCase U m)) \<or>
           test emergency_pattern (toLowerCase U m)"
  shows "detectIntent U m = str ''emergency''"
  using assms emergency_word_matches by (auto simp: detectIntent_cases emergency_check_iff)

lemma chest_pain_booking_lower:
  "toLowerCase identity_lower (str ''I have chest pain, can I book an appointment'') =
   str ''i have '' @ str ''chest pain'' @ str '', can i book an appointment''"
  by (simp add: toLowerCase_def ascii_lower_def str_def)

lemma urgent_greeting_lower:
  "toLowerCase identity_lower (str ''Hello, this is URGENT, please find a doctor'') =
   str ''hello, this is '' @ str ''urgent'' @ str '', please find a doctor''"
  by (simp add: toLowerCase_def ascii_lower_def str_def)

theorem emergency_priority_witness:
  "(\<exists>pre post. toLowerCase identity_lower (str ''I have chest pain, can I book an appointment'') =
      pre @ str ''chest pain'' @ post) \<and>
   test book_appointment_pattern
     (toLowerCase identity_lower (str ''I have chest pain, can I book an appointment'')) \<and>
   detectIntent identity_lower (str ''I have chest pain, can I book an appointment'') = str ''emergency'' \<and>
   detectIntent identity_lower (str ''I have chest pain, can I book an appointment'')
     \<noteq> str ''book_appointment'' \<and>
   occurs_as_word ''urgent''
     (toLowerCase identity_lower (str ''Hello, this is URGENT, please find a doctor'')) \<and>
   test greeting_pattern
     (toLowerCase identity_lower (str ''Hello, this is URGENT, please find a doctor'')) \<and>
   detectIntent identity_lower (str ''Hello, this is URGENT, please find a doctor'') = str ''emergency''"
proof -
  let ?m = "str ''I have chest pain, can I book an appointment''"
  let ?n = "str ''Hello, this is URGENT, please find a doctor''"
  have p: "\<exists>pre post. toLowerCase identity_lower ?m = pre @ str ''chest pain'' @ post"
    using chest_pain_booking_lower by blast
  have "str ''chest pain'' \<in> set emergencySymptoms" by (simp add: emergencySymptoms_def)
  with p have h: "(\<exists>symptom \<in> set emergencySymptoms. \<exists>pre post.
              toLowerCase identity_lower ?m = pre @ symptom @ post) \<or>
           (\<exists>w \<in> set emergency_words. occurs_as_word w (toLowerCase identity_lower ?m)) \<or>
           test emergency_pattern (toLowerCase identity_lower ?m)"
    by blast
  have b: "test book_appointment_pattern (toLowerCase identity_lower ?m)"
    by (simp add: toLowerCase_def ascii_lower_def str_def pattern_defs matcher_defs)
  have d: "str ''emergency'' \<noteq> str ''book_appointment''" by (simp add: str_def)
  have "map ascii_lower (str ''urgent'') = str ''urgent'' \<and>
        \<not> is_word_char (last (str ''hello, this is '')) \<and>
        \<not> is_word_char (hd (str '', please find a doctor''))"
    by (simp add: str_def ascii_lower_def is_word_char_def)
  with urgent_greeting_lower
  have o: "occurs_as_word ''urgent'' (toLowerCase identity_lower ?n)"
    unfolding occurs_as_word_def by blast
  have "''urgent'' \<in> set emergency_words" by (simp add: emergency_words_def)
  with o have k: "(\<exists>symptom \<in> set emergencySymptoms. \<exists>pre post.
              toLowerCase identity_lower ?n = pre @ symptom @ post) \<or>
           (\<exists>w \<in> set emergency_words. occurs_as_word w (toLowerCase identity_lower ?n)) \<or>
           test emergency_pattern (toLowerCase identity_lower ?n)"
    by blast
  have g: "test greeting_pattern (toLowerCase identity_lower ?n)"
    by (simp add: toLowerCase_def ascii_lower_def str_def pattern_defs matcher_defs)
  from emergency_priority [OF h] emergency_priority [OF k] p b d o g show ?thesis by simp
qed

text \<open>
  C2. Contract and order of the classifier: \<open>detectIntent\<close> returns a label of the closed
  set, and a message that the emergency override does not catch gets the label of the first
  pattern, in the order greeting, book_appointment, doctor_search, faq_hours,
  symptom_triage, cancel_appointment, that matches its lowercased text, and \<open>fallback\<close> when
  none matches.
\<close>
theorem detectIntent_contract:
  "detectIntent U m \<in> set intent_labels \<and>
   (\<not> emergency_check (toLowerCase U m) \<and> \<not> test emergency_pattern (toLowerCase U m) \<longrightarrow>
      detectIntent U m = first_match (toLowerCase U m))"
  using first_match_label [of "toLowerCase U m"]
  by (simp add: detectIntent_cases) (simp add: intent_labels_def)

theorem detectIntent_contract_witness:
  "detectIntent identity_lower (str ''when do you open'') \<in> set intent_labels \<and>
   \<not> emergency_check (toLowerCase identity_lower (str ''when do you open'')) \<and>
   \<not> test emergency_pattern (toLowerCase identity_lower (str ''when do you open'')) \<and>
   first_match (toLowerCase identity_lower (str ''when do you open'')) = str ''faq_hours'' \<and>
   detectIntent identity_lower (str ''when do you open'') = str ''faq_hours''"
proof -
  let ?l = "toLowerCase identity_lower (str ''when do you open'')"
  have e: "\<not> emergency_check ?l \<and> \<not> test emergency_pattern ?l"
    by (simp add: toLowerCase_def ascii_lower_def str_def emergency_check_def
        emergencySymptoms_def pattern_defs matcher_defs)
  have f: "first_match ?l = str ''faq_hours''"
    by (simp add: first_match_def ordered_patterns_def toLowerCase_def ascii_lower_def str_def
        pattern_defs matcher_defs)
  from detectIntent_contract [of identity_lower "str ''when do you open''"] e f
  show ?thesis by metis
qed

lemma first_match_book:
  "first_match l = str ''book_appointment'' \<Longrightarrow> test book_appointment_pattern l"
  by (simp add: first_match_def ordered_patterns_def str_def split: if_splits)

lemma book_words_lower:
  "w \<in> set book_action_words \<union> set book_target_words \<Longrightarrow> map ascii_lower (str w) = str w"
  by (auto simp: book_action_words_def book_target_words_def str_def ascii_lower_def)

lemma book_words_shape:
  "w \<in> set book_action_words \<union> set book_target_words \<Longrightarrow>
   w \<noteq> [] \<and> is_word_char (of_char (hd w)) \<and> is_word_char (of_char (last w))"
  by (auto simp: book_action_words_def book_target_words_def is_word_char_def)

lemma book_pattern_words:
  assumes "test book_appointment_pattern l"
  shows "\<exists>pre a mid t post. l = pre @ a @ mid @ t @ post \<and>
           map ascii_lower a \<in> str ` set book_action_words \<and>
           map ascii_lower t \<in> str ` set book_target_words \<and>
           (pre = [] \<or> \<not> is_word_char (last pre)) \<and>
           mid \<noteq> [] \<and> \<not> is_word_char (hd mid) \<and> \<not> is_word_char (last mid) \<and>
           (\<forall>c \<in> set mid. \<not> is_line_terminator c) \<and>
           (post = [] \<or> \<not> is_word_char (hd post))"
proof -
  from assms obtain pre rest where l: "l = pre @ rest" and
    "run book_appointment_pattern (last_unit None pre, rest) \<noteq> []"
    unfolding test_def using search_splits by blast
  then obtain st where "st \<in> set (run book_appointment_pattern (last_unit None pre, rest))"
    by (cases "run book_appointment_pattern (last_unit None pre, rest)") auto
  then have "\<exists>a mid t. rest = a @ mid @ t @ snd st \<and>
           (\<exists>w \<in> set book_action_words. list_all2 matches_char a w) \<and>
           (\<exists>w \<in> set book_target_words. list_all2 matches_char t w) \<and>
           (\<forall>c \<in> set mid. \<not> is_line_terminator c) \<and>
           at_word_boundary (last_unit None pre, a @ mid @ t @ snd st) \<and>
           at_word_boundary (last_unit (last_unit None pre) a, mid @ t @ snd st) \<and>
           at_word_boundary (last_unit (last_unit (last_unit None pre) a) mid, t @ snd st) \<and>
           at_word_boundary (last_unit (last_unit (last_unit (last_unit None pre) a) mid) t, snd st)"
    unfolding book_appointment_pattern_def by (rule compound_consumes)
  then obtain a mid t w1 w2 where
    r: "rest = a @ mid @ t @ snd st" and
    w1: "w1 \<in> set book_action_words" "list_all2 matches_char a w1" and
    w2: "w2 \<in> set book_target_words" "list_all2 matches_char t w2" and
    nl: "\<forall>c \<in> set mid. \<not> is_line_terminator c" and
    b0: "at_word_boundary (last_unit None pre, a @ mid @ t @ snd st)" and
    b1: "at_word_boundary (last_unit (last_unit None pre) a, mid @ t @ snd st)" and
    b2: "at_word_boundary (last_unit (last_unit (last_unit None pre) a) mid, t @ snd st)" and
    b3: "at_word_boundary (last_unit (last_unit (last_unit (last_unit None pre) a) mid) t, snd st)"
    by blast
  have a: "map ascii_lower a = str w1"
    using literal_match_lower [OF w1(2)] book_words_lower [of w1] w1(1) by simp
  have t: "map ascii_lower t = str w2"
    using literal_match_lower [OF w2(2)] book_words_lower [of w2] w2(1) by simp
  from lower_word_ends [OF a] book_words_shape [of w1] w1(1)
  have ea: "a \<noteq> []" "is_word_char (hd a)" "is_word_char (last a)" by simp_all
  from lower_word_ends [OF t] book_words_shape [of w2] w2(1)
  have et: "t \<noteq> []" "is_word_char (hd t)" "is_word_char (last t)" by simp_all
  from boundary_before_word [OF b0] ea(1,2)
  have p: "pre = [] \<or> \<not> is_word_char (last pre)" by auto
  from boundary_after_word [OF b1 ea(1,3)]
  have "mid @ t @ snd st = [] \<or> \<not> is_word_char (hd (mid @ t @ snd st))" .
  with et(1,2) have m1: "mid \<noteq> []" "\<not> is_word_char (hd mid)"
    by (cases mid; simp)+
  from boundary_before_word [OF b2] et(1,2) m1(1)
  have m2: "\<not> is_word_char (last mid)" by auto
  from boundary_after_word [OF b3 et(1,3)]
  have q: "snd st = [] \<or> \<not> is_word_char (hd (snd st))" .
  from l r have "l = pre @ a @ mid @ t @ snd st" by simp
  with a t w1(1) w2(1) p m1 m2 nl q show ?thesis by blast
qed

text \<open>
  C3. The compound pattern of \<open>book_appointment\<close>: a message classified as
  \<open>book_appointment\<close> holds, in its lowercased text, an action word (book, schedule,
  appointment, visit, reserve, slot, make) and after it a target word (appointment, doctor,
  visit), each as a whole word: the action word has nothing or a code unit that is not a
  word character before it, the target word has nothing or such a code unit after it, and
  the text between them is not empty, begins and ends with a code unit that is not a word
  character, and holds no line terminator. The single word "appointment" is not classified
  as \<open>book_appointment\<close> and falls through the pattern order to \<open>fallback\<close>; in "facebook
  doctors" the text "book" is no word, and the message is classified as \<open>doctor_search\<close>.
\<close>
theorem book_appointment_compound:
  "(detectIntent U m = str ''book_appointment'' \<longrightarrow>
      (\<exists>pre a mid t post. toLowerCase U m = pre @ a @ mid @ t @ post \<and>
         map ascii_lower a \<in>
           str ` {''book'', ''schedule'', ''appointment'', ''visit'', ''reserve'', ''slot'', ''make''} \<and>
         map ascii_lower t \<in> str ` {''appointment'', ''doctor'', ''visit''} \<and>
         (pre = [] \<or> \<not> is_word_char (last pre)) \<and>
         mid \<noteq> [] \<and> \<not> is_word_char (hd mid) \<and> \<not> is_word_char (last mid) \<and>
         (\<forall>c \<in> set mid. \<not> is_line_terminator c) \<and>
         (post = [] \<or> \<not> is_word_char (hd post)))) \<and>
   detectIntent U (str ''appointment'') \<noteq> str ''book_appointment'' \<and>
   detectIntent U (str ''appointment'') = str ''fallback'' \<and>
   detectIntent U (str ''facebook doctors'') = str ''doctor_search''"
proof -
  have d: "str ''emergency'' \<noteq> str ''book_appointment''" "str ''fallback'' \<noteq> str ''book_appointment''"
    by (simp_all add: str_def)
  have s: "set book_action_words =
             {''book'', ''schedule'', ''appointment'', ''visit'', ''reserve'', ''slot'', ''make''}"
    "set book_target_words = {''appointment'', ''doctor'', ''visit''}"
    by (simp_all add: book_action_words_def book_target_words_def)
  have f: "detectIntent U (str ''facebook doctors'') = str ''doctor_search''"
    by (simp add: detect_defs)
  have "test book_appointment_pattern (toLowerCase U m)"
    if "detectIntent U m = str ''book_appointment''"
    using that d first_match_book by (simp add: detectIntent_cases split: if_splits)
  then have "\<exists>pre a mid t post. toLowerCase U m = pre @ a @ mid @ t @ post \<and>
         map ascii_lower a \<in>
           str ` {''book'', ''schedule'', ''appointment'', ''visit'', ''reserve'', ''slot'', ''make''} \<and>
         map ascii_lower t \<in> str ` {''appointment'', ''doctor'', ''visit''} \<and>
         (pre = [] \<or> \<not> is_word_char (last pre)) \<and>
         mid \<noteq> [] \<and> \<not> is_word_char (hd mid) \<and> \<not> is_word_char (last mid) \<and>
         (\<forall>c \<in> set mid. \<not> is_line_terminator c) \<and>
         (post = [] \<or> \<not> is_word_char (hd post))"
    if "detectIntent U m = str ''book_appointment''"
    using that book_pattern_words [of "toLowerCase U m"] unfolding s by blast
  with d f show ?thesis by (simp only: detect_appointment simp_thms) blast
qed

theorem book_appointment_compound_witness:
  "detectIntent identity_lower (str ''I want to book an appointment'') = str ''book_appointment'' \<and>
   (\<exists>pre a mid t post.
      toLowerCase identity_lower (str ''I want to book an appointment'') = pre @ a @ mid @ t @ post \<and>
      map ascii_lower a \<in>
        str ` {''book'', ''schedule'', ''appointment'', ''visit'', ''reserve'', ''slot'', ''make''} \<and>
      map ascii_lower t \<in> str ` {''appointment'', ''doctor'', ''visit''} \<and>
      (pre = [] \<or> \<not> is_word_char (last pre)) \<and>
      mid \<noteq> [] \<and> \<not> is_word_char (hd mid) \<and> \<not> is_word_char (last mid) \<and>
      (\<forall>c \<in> set mid. \<not> is_line_terminator c) \<and>
      (post = [] \<or> \<not> is_word_char (hd post))) \<and>
   detectIntent identity_lower (str ''appointment'') = str ''fallback'' \<and>
   detectIntent identity_lower (str ''facebook doctors'') = str ''doctor_search''"
  using book_appointment_compound [of identity_lower "str ''I want to book an appointment''"]
    detect_book [of identity_lower]
  by blast

subsection \<open>Response generation\<close>

lemma label_neq:
  "str ''symptom_triage'' \<noteq> str ''greeting''"
  "str ''symptom_triage'' \<noteq> str ''book_appointment''"
  "str ''symptom_triage'' \<noteq> str ''doctor_search''"
  "str ''symptom_triage'' \<noteq> str ''faq_hours''"
  "str ''symptom_triage'' \<noteq> str ''emergency''"
  "str ''doctor_search'' \<noteq> str ''greeting''"
  "str ''doctor_search'' \<noteq> str ''book_appointment''"
  "str ''book_appointment'' \<noteq> str ''greeting''"
  "str ''fallback'' \<noteq> str ''greeting''"
  "str ''fallback'' \<noteq> str ''book_appointment''"
  "str ''fallback'' \<noteq> str ''doctor_search''"
  "str ''fallback'' \<noteq> str ''faq_hours''"
  "str ''fallback'' \<noteq> str ''symptom_triage''"
  "str ''fallback'' \<noteq> str ''cancel_appointment''"
  "str ''fallback'' \<noteq> str ''emergency''"
  "str ''error'' \<noteq> str ''greeting''"
  "str ''error'' \<noteq> str ''book_appointment''"
  "str ''error'' \<noteq> str ''doctor_search''"
  "str ''error'' \<noteq> str ''faq_hours''"
  "str ''error'' \<noteq> str ''symptom_triage''"
  "str ''error'' \<noteq> str ''cancel_appointment''"
  "str ''error'' \<noteq> str ''emergency''"
  "str ''error'' \<noteq> str ''fallback''"
  by (simp_all add: str_def)

lemma triage_response:
  "generateResponse U (str ''symptom_triage'') m c =
     ([], if emergency_check (toLowerCase U m) then emergency_alert_text else triage_text)"
  by (simp add: generateResponse_def label_neq emergency_check_def)

text \<open>
  C9. The emergency re-check of the case \<open>symptom_triage\<close> is dead: for a message that
  \<open>detectIntent\<close> classifies as \<open>symptom_triage\<close>, the lowercased text contains no phrase of
  \<open>emergencySymptoms\<close>, the re-check is false, and \<open>generateResponse\<close> returns the triage
  deferral message, never the emergency alert.
\<close>
theorem triage_recheck_dead:
  assumes "detectIntent U m = str ''symptom_triage''"
  shows "\<not> list_ex (\<lambda>symptom. str_includes (toLowerCase U m) symptom) emergencySymptoms \<and>
         \<not> (\<exists>symptom \<in> set emergencySymptoms. \<exists>pre post. toLowerCase U m = pre @ symptom @ post) \<and>
         generateResponse U (str ''symptom_triage'') m c = ([], triage_text)"
proof -
  from assms have e: "\<not> emergency_check (toLowerCase U m)"
    using label_neq(5) by (simp add: detectIntent_cases split: if_splits)
  then have "\<not> list_ex (\<lambda>symptom. str_includes (toLowerCase U m) symptom) emergencySymptoms"
    by (simp add: emergency_check_def)
  moreover from e
  have "\<not> (\<exists>symptom \<in> set emergencySymptoms. \<exists>pre post. toLowerCase U m = pre @ symptom @ post)"
    using emergency_check_iff [of "toLowerCase U m"] by blast
  moreover from e have "generateResponse U (str ''symptom_triage'') m c = ([], triage_text)"
    by (simp add: triage_response)
  ultimately show ?thesis by blast
qed

theorem triage_recheck_dead_witness:
  "detectIntent identity_lower (str ''i have a fever'') = str ''symptom_triage'' \<and>
   \<not> list_ex (\<lambda>symptom. str_includes (toLowerCase identity_lower (str ''i have a fever'')) symptom)
        emergencySymptoms \<and>
   generateResponse identity_lower (str ''symptom_triage'') (str ''i have a fever'') failing_client
     = ([], triage_text)"
  using triage_recheck_dead [OF detect_fever, of identity_lower failing_client]
    detect_fever [of identity_lower]
  by blast

text \<open>
  C10. \<open>generateResponse\<close> answers every intent string: one that is none of the seven
  labels it has a case for, the label \<open>fallback\<close> and the string \<open>error\<close> among them, gets the
  capability menu, which begins "I'm not sure I understand"; and for every intent other
  than \<open>book_appointment\<close> and \<open>doctor_search\<close> no query is sent to the directory.
\<close>
theorem generateResponse_default:
  "(intent \<notin> str ` {''greeting'', ''book_appointment'', ''doctor_search'', ''faq_hours'',
                       ''symptom_triage'', ''cancel_appointment'', ''emergency''} \<longrightarrow>
      generateResponse U intent m c = ([], fallback_text)) \<and>
   (intent \<noteq> str ''book_appointment'' \<and> intent \<noteq> str ''doctor_search'' \<longrightarrow>
      fst (generateResponse U intent m c) = []) \<and>
   generateResponse U (str ''fallback'') m c = ([], fallback_text) \<and>
   generateResponse U (str ''error'') m c = ([], fallback_text) \<and>
   startsWith fallback_text (str ''I'm not sure I understand'')"
proof -
  have "startsWith fallback_text (str ''I'm not sure I understand'')"
    by (simp add: fallback_text_def str_def)
  then show ?thesis
    by (simp add: generateResponse_def label_neq Let_def)
qed

theorem generateResponse_default_witness:
  "str ''error'' \<notin> str ` {''greeting'', ''book_appointment'', ''doctor_search'', ''faq_hours'',
                            ''symptom_triage'', ''cancel_appointment'', ''emergency''} \<and>
   generateResponse identity_lower (str ''error'') (str ''hello'') failing_client = ([], fallback_text) \<and>
   str ''faq_hours'' \<noteq> str ''book_appointment'' \<and> str ''faq_hours'' \<noteq> str ''doctor_search'' \<and>
   fst (generateResponse identity_lower (str ''faq_hours'') (str ''hello'') failing_client) = []"
proof -
  have a: "str ''error'' \<notin> str ` {''greeting'', ''book_appointment'', ''doctor_search'', ''faq_hours'',
                            ''symptom_triage'', ''cancel_appointment'', ''emergency''}"
    by (simp add: str_def)
  have b: "str ''faq_hours'' \<noteq> str ''book_appointment'' \<and> str ''faq_hours'' \<noteq> str ''doctor_search''"
    by (simp add: str_def)
  from generateResponse_default [of "str ''error''" identity_lower "str ''hello''" failing_client]
    generateResponse_default [of "str ''faq_hours''" identity_lower "str ''hello''" failing_client]
    a b
  show ?thesis by blast
qed

lemma fold_append_concat: "fold (\<lambda>x acc. acc @ f x) xs h = h @ concat (map f xs)"
  by (induction xs arbitrary: h) simp_all

lemma book_entry_numbered: "book_entry idx doc = numbered_entry (Suc idx) doc"
  by (simp add: book_entry_def numbered_entry_def hour_range_def str_def add.commute)

lemma enumerate_numbered:
  "map (\<lambda>(idx, doc). numbered_entry (Suc idx) doc) (enumerate 0 ds) =
   map2 numbered_entry [1..<Suc (length ds)] ds"
proof -
  have "map2 numbered_entry [1..<Suc (length ds)] ds =
        map2 numbered_entry (map Suc [0..<length ds]) ds"
    by (simp only: map_Suc_upt One_nat_def)
  also have "\<dots> = map (\<lambda>(idx, doc). numbered_entry (Suc idx) doc) (zip [0..<length ds] ds)"
    by (simp add: zip_map1 case_prod_unfold)
  finally show ?thesis by (simp add: enumerate_eq_zip)
qed

lemma book_listing_entries:
  "book_listing ds =
   book_header @ concat (map2 numbered_entry [1..<Suc (length ds)] ds) @ book_prompt"
proof -
  have "(\<lambda>(idx, doc) response. response @ book_entry idx doc) =
        (\<lambda>x acc. acc @ (\<lambda>(idx, doc). numbered_entry (Suc idx) doc) x)"
    by (auto simp: fun_eq_iff book_entry_numbered)
  then have "book_listing ds =
        book_header @ concat (map (\<lambda>(idx, doc). numbered_entry (Suc idx) doc) (enumerate 0 ds))
        @ book_prompt"
    unfolding book_listing_def by (simp only: fold_append_concat append_assoc)
  then show ?thesis by (simp only: enumerate_numbered)
qed

text \<open>
  C5. Shape of the \<open>book_appointment\<close> response: one query, for all doctors ordered by
  name; when it yields no records (\<open>null\<close> or an empty list) the response is the
  unavailable-doctors message; for \<open>N\<close> doctors it is the header, \<open>N\<close> entries numbered 1
  to \<open>N\<close> in the order of the result, each with name, specialty, comma-joined days and the
  hour range \<open>start:00 - end:00\<close>, and then the prompt to choose a doctor or specialty.
\<close>
theorem book_appointment_response:
  "generateResponse U (str ''book_appointment'') m c =
     ([book_query],
      case c book_query of
        None \<Rightarrow> no_doctors_text
      | Some doctors \<Rightarrow>
          if doctors = [] then no_doctors_text
          else book_header @ concat (map2 numbered_entry [1..<Suc (length doctors)] doctors)
               @ book_prompt) \<and>
   length (map2 numbered_entry [1..<Suc (length ds)] ds) = length ds \<and>
   order_column book_query = Some (str ''name'') \<and> ilike_filter book_query = None"
proof -
  have "generateResponse U (str ''book_appointment'') m c =
     ([book_query],
      case c book_query of
        None \<Rightarrow> no_doctors_text
      | Some doctors \<Rightarrow>
          if doctors = [] then no_doctors_text
          else book_header @ concat (map2 numbered_entry [1..<Suc (length doctors)] doctors)
               @ book_prompt)"
    by (simp add: generateResponse_def label_neq book_listing_entries split: option.split)
  moreover have "length (map2 numbered_entry [1..<Suc (length ds)] ds) = length ds"
    by (simp only: length_map length_zip length_upt)
  moreover have "order_column book_query = Some (str ''name'') \<and> ilike_filter book_query = None"
    by (simp add: book_query_def)
  ultimately show ?thesis by blast
qed

lemmas response_defs =
  book_header_def book_prompt_def no_doctors_text_def numbered_entry_def hour_range_def
  number_to_string_def digits.simps kumar_def johnson_def

theorem book_appointment_response_witness:
  "generateResponse identity_lower (str ''book_appointment'') (str ''book a visit'') failing_client
     = ([book_query], no_doctors_text) \<and>
   generateResponse identity_lower (str ''book_appointment'') (str ''book a visit'')
       (directory_client identity_lower [])
     = ([book_query], no_doctors_text) \<and>
   generateResponse identity_lower (str ''book_appointment'') (str ''book a visit'')
       (directory_client identity_lower [kumar, johnson])
     = ([book_query],
        str ''I can help you book an appointment! Here are our available doctors:\<newline>\<newline>'' @
        str ''1. Dr. Dr. David Kumar - Neurology\<newline>'' @
        str ''   Available: Monday, Tuesday, Thursday, Friday\<newline>'' @
        str ''   Hours: 9:00 - 17:00\<newline>\<newline>'' @
        str ''2. Dr. Dr. Sarah Johnson - Cardiology\<newline>'' @
        str ''   Available: Monday, Tuesday, Wednesday, Thursday, Friday\<newline>'' @
        str ''   Hours: 9:00 - 17:00\<newline>\<newline>'' @
        book_prompt)"
proof -
  have q: "directory_client identity_lower ds book_query = Some ds" for ds
    by (simp add: directory_client_def book_query_def)
  have f: "failing_client book_query = None" by (simp add: failing_client_def)
  have u: "[1..<Suc (length [kumar, johnson])] = [1, 2]" by (simp add: upt_rec)
  have e: "book_header @ concat (map2 numbered_entry [1, 2] [kumar, johnson]) @ book_prompt =
        str ''I can help you book an appointment! Here are our available doctors:\<newline>\<newline>'' @
        str ''1. Dr. Dr. David Kumar - Neurology\<newline>'' @
        str ''   Available: Monday, Tuesday, Thursday, Friday\<newline>'' @
        str ''   Hours: 9:00 - 17:00\<newline>\<newline>'' @
        str ''2. Dr. Dr. Sarah Johnson - Cardiology\<newline>'' @
        str ''   Available: Monday, Tuesday, Wednesday, Thursday, Friday\<newline>'' @
        str ''   Hours: 9:00 - 17:00\<newline>\<newline>'' @
        book_prompt"
    by (simp add: response_defs str_def)
  show ?thesis
    using book_appointment_response [of identity_lower "str ''book a visit''" failing_client]
      book_appointment_response [of identity_lower "str ''book a visit''" "directory_client identity_lower []"]
      book_appointment_response [of identity_lower "str ''book a visit''"
        "directory_client identity_lower [kumar, johnson]"]
    by (simp only: q f u e option.case list.simps if_False if_True simp_thms)
qed

lemma specialty_of_table: "specialty_of l = table_specialty l"
  by (simp add: specialty_of_def table_specialty_def specialty_keywords_def)

lemma search_listing_entries:
  "search_listing sp found = search_header sp @ concat (map search_entry found) @ search_prompt"
  unfolding search_listing_def by (simp only: fold_append_concat append_assoc)

lemma pattern_substring_wrapped: "pattern_substring (str ''%'' @ sub @ str ''%'') = Some sub"
  by (simp add: pattern_substring_def str_def butlast_append)

lemma directory_client_search:
  "directory_client U directory (search_query sp) =
     Some (if sp = [] then directory
           else filter (\<lambda>doc. contains_ci U (specialty doc) sp) directory)"
  by (simp add: directory_client_def search_query_def pattern_substring_wrapped)

lemma cardiologist_specialty:
  "table_specialty (toLowerCase U (str ''find me a cardiologist'')) = str ''Cardiology''"
  by (simp add: table_specialty_def specialty_keywords_def toLowerCase_def ascii_lower_def str_def)

lemma show_doctors_specialty:
  "table_specialty (toLowerCase U (str ''show me doctors'')) = []"
  by (simp add: table_specialty_def specialty_keywords_def toLowerCase_def ascii_lower_def str_def)

lemma not_found_names_specialties:
  "str_includes not_found_text
     (str ''Cardiology, Orthopedics, Pediatrics, Neurology, and General Medicine'')"
  by (simp add: not_found_text_def str_def)

text \<open>
  C6. The specialty filter of \<open>doctor_search\<close>: the filter is the specialty of the first
  keyword of the table cardio, ortho, pediat, neuro, general that the lowercased message
  contains, and none when it contains no keyword; one query is sent, with an \<open>ilike\<close> filter
  \<open>%specialty%\<close> on the column \<open>specialty\<close> when there is a filter and with no filter otherwise,
  so that the directory answers with the doctors whose specialty contains the filter
  case-insensitively, or with all of them; "find me a cardiologist" filters to Cardiology
  and "show me doctors" does not filter; a result that is \<open>null\<close> or empty gives the
  could-not-find message, which names the five specialties, and any other result is listed
  under its header and followed by the booking prompt.
\<close>
theorem doctor_search_filter:
  "specialty_of l = table_specialty l \<and>
   generateResponse U (str ''doctor_search'') m c =
     ([search_query (table_specialty (toLowerCase U m))],
      case c (search_query (table_specialty (toLowerCase U m))) of
        None \<Rightarrow> not_found_text
      | Some found \<Rightarrow>
          if found = [] then not_found_text
          else search_header (table_specialty (toLowerCase U m)) @ concat (map search_entry found)
               @ search_prompt) \<and>
   ilike_filter (search_query sp) =
     (if sp = [] then None else Some (str ''specialty'', str ''%'' @ sp @ str ''%'')) \<and>
   directory_client U directory (search_query sp) =
     Some (if sp = [] then directory
           else filter (\<lambda>doc. contains_ci U (specialty doc) sp) directory) \<and>
   table_specialty (toLowerCase U (str ''find me a cardiologist'')) = str ''Cardiology'' \<and>
   table_specialty (toLowerCase U (str ''show me doctors'')) = [] \<and>
   str_includes not_found_text
     (str ''Cardiology, Orthopedics, Pediatrics, Neurology, and General Medicine'')"
proof -
  have "generateResponse U (str ''doctor_search'') m c =
     ([search_query (table_specialty (toLowerCase U m))],
      case c (search_query (table_specialty (toLowerCase U m))) of
        None \<Rightarrow> not_found_text
      | Some found \<Rightarrow>
          if found = [] then not_found_text
          else search_header (table_specialty (toLowerCase U m)) @ concat (map search_entry found)
               @ search_prompt)"
    by (simp add: generateResponse_def label_neq Let_def specialty_of_table search_listing_entries
        split: option.split)
  moreover have "ilike_filter (search_query sp) =
     (if sp = [] then None else Some (str ''specialty'', str ''%'' @ sp @ str ''%''))"
    by (simp add: search_query_def)
  ultimately show ?thesis
    using specialty_of_table directory_client_search cardiologist_specialty
      show_doctors_specialty not_found_names_specialties
    by blast
qed

lemmas search_defs =
  search_header_def search_header_all_def search_entry_def search_prompt_def
  number_to_string_def digits.simps kumar_def johnson_def

theorem doctor_search_filter_witness:
  "detectIntent identity_lower (str ''find me a cardiologist'') = str ''doctor_search'' \<and>
   generateResponse identity_lower (str ''doctor_search'') (str ''find me a cardiologist'')
       (directory_client identity_lower [kumar, johnson])
     = ([search_query (str ''Cardiology'')],
        str ''Here are our Cardiology specialists:\<newline>\<newline>'' @
        [8226] @ str '' Dr. Dr. Sarah Johnson - Cardiology\<newline>'' @
        str ''  Available: Monday, Tuesday, Wednesday, Thursday, Friday\<newline>'' @
        str ''  Hours: 9:00 - 17:00\<newline>\<newline>'' @
        str ''Would you like to book an appointment with any of these doctors?'') \<and>
   detectIntent identity_lower (str ''show me doctors'') = str ''doctor_search'' \<and>
   generateResponse identity_lower (str ''doctor_search'') (str ''show me doctors'')
       (directory_client identity_lower [kumar, johnson])
     = ([search_query []],
        str ''Here are our available doctors:\<newline>\<newline>'' @
        [8226] @ str '' Dr. Dr. David Kumar - Neurology\<newline>'' @
        str ''  Available: Monday, Tuesday, Thursday, Friday\<newline>'' @
        str ''  Hours: 9:00 - 17:00\<newline>\<newline>'' @
        [8226] @ str '' Dr. Dr. Sarah Johnson - Cardiology\<newline>'' @
        str ''  Available: Monday, Tuesday, Wednesday, Thursday, Friday\<newline>'' @
        str ''  Hours: 9:00 - 17:00\<newline>\<newline>'' @
        str ''Would you like to book an appointment with any of these doctors?'') \<and>
   generateResponse identity_lower (str ''doctor_search'') (str ''find me a cardiologist'')
       (directory_client identity_lower [kumar])
     = ([search_query (str ''Cardiology'')], not_found_text)"
proof -
  let ?U = identity_lower
  have d1: "detectIntent ?U (str ''find me a cardiologist'') = str ''doctor_search''"
    by (simp add: detect_defs)
  have d2: "detectIntent ?U (str ''show me doctors'') = str ''doctor_search''"
    by (simp add: detect_defs)
  have c1: "filter (\<lambda>doc. contains_ci ?U (specialty doc) (str ''Cardiology'')) [kumar, johnson]
            = [johnson]"
    by (simp add: contains_ci_def toLowerCase_def ascii_lower_def str_def kumar_def johnson_def)
  have c2: "filter (\<lambda>doc. contains_ci ?U (specialty doc) (str ''Cardiology'')) [kumar] = []"
    by (simp add: contains_ci_def toLowerCase_def ascii_lower_def str_def kumar_def)
  have n: "str ''Cardiology'' \<noteq> []" by (simp add: str_def)
  have e1: "search_header (str ''Cardiology'') @ concat (map search_entry [johnson]) @ search_prompt =
        str ''Here are our Cardiology specialists:\<newline>\<newline>'' @
        [8226] @ str '' Dr. Dr. Sarah Johnson - Cardiology\<newline>'' @
        str ''  Available: Monday, Tuesday, Wednesday, Thursday, Friday\<newline>'' @
        str ''  Hours: 9:00 - 17:00\<newline>\<newline>'' @
        str ''Would you like to book an appointment with any of these doctors?''"
    by (simp add: search_defs str_def)
  have e2: "search_header [] @ concat (map search_entry [kumar, johnson]) @ search_prompt =
        str ''Here are our available doctors:\<newline>\<newline>'' @
        [8226] @ str '' Dr. Dr. David Kumar - Neurology\<newline>'' @
        str ''  Available: Monday, Tuesday, Thursday, Friday\<newline>'' @
        str ''  Hours: 9:00 - 17:00\<newline>\<newline>'' @
        [8226] @ str '' Dr. Dr. Sarah Johnson - Cardiology\<newline>'' @
        str ''  Available: Monday, Tuesday, Wednesday, Thursday, Friday\<newline>'' @
        str ''  Hours: 9:00 - 17:00\<newline>\<newline>'' @
        str ''Would you like to book an appointment with any of these doctors?''"
    by (simp add: search_defs str_def)
  have q1: "directory_client ?U [kumar, johnson] (search_query (str ''Cardiology'')) = Some [johnson]"
    using doctor_search_filter [of "[]" ?U "[]" failing_client "str ''Cardiology''" "[kumar, johnson]"]
      n c1 by simp
  have q2: "directory_client ?U [kumar, johnson] (search_query []) = Some [kumar, johnson]"
    using doctor_search_filter [of "[]" ?U "[]" failing_client "[]" "[kumar, johnson]"] by simp
  have q3: "directory_client ?U [kumar] (search_query (str ''Cardiology'')) = Some []"
    using doctor_search_filter [of "[]" ?U "[]" failing_client "str ''Cardiology''" "[kumar]"]
      n c2 by simp
  have s1: "table_specialty (toLowerCase ?U (str ''find me a cardiologist'')) = str ''Cardiology''"
    and s2: "table_specialty (toLowerCase ?U (str ''show me doctors'')) = []"
    using doctor_search_filter [of "[]" ?U "[]" failing_client "[]" "[]"] by blast+
  have r1: "generateResponse ?U (str ''doctor_search'') (str ''find me a cardiologist'')
       (directory_client ?U [kumar, johnson])
     = ([search_query (str ''Cardiology'')],
        search_header (str ''Cardiology'') @ concat (map search_entry [johnson]) @ search_prompt)"
    using doctor_search_filter [of "[]" ?U "str ''find me a cardiologist''"
        "directory_client ?U [kumar, johnson]" "[]" "[]"]
    by (simp only: s1 q1 option.case) simp
  have r2: "generateResponse ?U (str ''doctor_search'') (str ''show me doctors'')
       (directory_client ?U [kumar, johnson])
     = ([search_query []],
        search_header [] @ concat (map search_entry [kumar, johnson]) @ search_prompt)"
    using doctor_search_filter [of "[]" ?U "str ''show me doctors''"
        "directory_client ?U [kumar, johnson]" "[]" "[]"]
    by (simp only: s2 q2 option.case) simp
  have r3: "generateResponse ?U (str ''doctor_search'') (str ''find me a cardiologist'')
       (directory_client ?U [kumar])
     = ([search_query (str ''Cardiology'')], not_found_text)"
    using doctor_search_filter [of "[]" ?U "str ''find me a cardiologist''"
        "directory_client ?U [kumar]" "[]" "[]"]
    by (simp only: s1 q3 option.case) simp
  from d1 d2 r1 r2 r3 e1 e2 show ?thesis by (simp only: simp_thms)
qed

subsection \<open>The request handler\<close>

lemma serve_not_options:
  "http_method req \<noteq> str ''OPTIONS'' \<Longrightarrow>
   serve rt req =
     (case try_block rt req of
        Inr result \<Rightarrow> result
      | Inl error \<Rightarrow>
          \<lparr>response = error_response error, console = [Console_error error], queries = []\<rparr>)"
  by (simp add: serve_def)

lemma try_block_falsy:
  "json req = Inr b \<Longrightarrow> destructure_message rt b = Inr v \<Longrightarrow> \<not> truthy v \<Longrightarrow>
   try_block rt req = Inr bad_request"
  by (simp add: try_block_def)

lemma try_block_string:
  "json req = Inr b \<Longrightarrow> destructure_message rt b = Inr (JString msg) \<Longrightarrow> msg \<noteq> [] \<Longrightarrow>
   createClient rt = Inr c \<Longrightarrow>
   try_block rt req =
     Inr \<lparr>response =
            \<lparr>status = 200, headers = json_headers,
             body = Some [(''intent'', detectIntent (unicode rt) msg),
                          (''response'',
                           snd (generateResponse (unicode rt) (detectIntent (unicode rt) msg) msg c))]\<rparr>,
          console = [Console_log (str ''Detected intent: '' @ detectIntent (unicode rt) msg @
                       str '' for message: '' @ msg)],
          queries = fst (generateResponse (unicode rt) (detectIntent (unicode rt) msg) msg c)\<rparr>"
  by (simp add: try_block_def Let_def case_prod_unfold)

lemma try_block_outcomes:
  assumes "try_block rt req = Inr out"
  shows "out = bad_request \<or>
         (\<exists>b msg c. json req = Inr b \<and> destructure_message rt b = Inr (JString msg) \<and>
            msg \<noteq> [] \<and> createClient rt = Inr c)"
proof -
  from assms obtain b where b: "json req = Inr b"
    by (cases "json req") (simp_all add: try_block_def)
  with assms obtain v where v: "destructure_message rt b = Inr v"
    by (cases "destructure_message rt b") (simp_all add: try_block_def)
  show ?thesis
  proof (cases "truthy v")
    case False
    with assms b v show ?thesis by (simp add: try_block_def)
  next
    case True
    with assms b v obtain c where c: "createClient rt = Inr c"
      by (cases "createClient rt") (simp_all add: try_block_def)
    with assms b v True obtain msg where "v = JString msg"
      by (cases v) (simp_all add: try_block_def)
    with True b v c show ?thesis by auto
  qed
qed

lemma detectIntent_not_error: "detectIntent U m \<noteq> str ''error''"
proof -
  have "str ''error'' \<notin> set intent_labels" by (simp add: intent_labels_def str_def)
  moreover have "detectIntent U m \<in> set intent_labels"
    using first_match_label [of "toLowerCase U m"]
    by (simp add: detectIntent_cases) (simp add: intent_labels_def)
  ultimately show ?thesis by metis
qed

lemma error_text_message: "fault_message e = Some msg \<Longrightarrow> msg \<noteq> [] \<Longrightarrow> error_text e = msg"
  by (simp add: error_text_def)

text \<open>
  C4. Validation at the boundary: a request that is not a preflight and whose JSON body is
  an object with no field \<open>message\<close>, or with the empty string as \<open>message\<close>, is rejected with
  status 400 and the payload \<open>{error: "Message is required"}\<close>; nothing is logged and no
  query is sent, so neither classification (whose result the handler logs) nor response
  generation is reached. A message that is a non-empty string, one of white space only
  included, is not rejected: once the client is created it is classified, the intent is
  logged, and the answer has status 200.
\<close>
theorem empty_message_rejected:
  assumes "http_method req \<noteq> str ''OPTIONS''"
    and "json req = Inr (Json_object props)"
  shows "(props (str ''message'') = None \<or> props (str ''message'') = Some (JString []) \<longrightarrow>
          serve rt req =
            \<lparr>response = \<lparr>status = 400, headers = json_headers,
                          body = Some [(''error'', str ''Message is required'')]\<rparr>,
             console = [], queries = []\<rparr>) \<and>
         (\<forall>msg c. props (str ''message'') = Some (JString msg) \<and> msg \<noteq> [] \<and>
            createClient rt = Inr c \<longrightarrow>
            status (response (serve rt req)) = 200 \<and>
            console (serve rt req) =
              [Console_log (str ''Detected intent: '' @ detectIntent (unicode rt) msg @
                 str '' for message: '' @ msg)])"
proof -
  have "serve rt req =
            \<lparr>response = \<lparr>status = 400, headers = json_headers,
                          body = Some [(''error'', str ''Message is required'')]\<rparr>,
             console = [], queries = []\<rparr>"
    if "props (str ''message'') = None \<or> props (str ''message'') = Some (JString [])"
  proof -
    from that obtain v where "destructure_message rt (Json_object props) = Inr v" "\<not> truthy v"
      by (auto simp: destructure_message_def)
    with assms(2) have "try_block rt req = Inr bad_request" by (rule try_block_falsy)
    with assms(1) show ?thesis
      by (simp add: serve_not_options bad_request_def message_required_text_def)
  qed
  moreover have "status (response (serve rt req)) = 200 \<and>
            console (serve rt req) =
              [Console_log (str ''Detected intent: '' @ detectIntent (unicode rt) msg @
                 str '' for message: '' @ msg)]"
    if "props (str ''message'') = Some (JString msg)" "msg \<noteq> []" "createClient rt = Inr c"
    for msg c
  proof -
    from that(1) have "destructure_message rt (Json_object props) = Inr (JString msg)"
      by (simp add: destructure_message_def)
    from try_block_string [OF assms(2) this that(2,3)] assms(1) show ?thesis
      by (simp add: serve_not_options)
  qed
  ultimately show ?thesis by blast
qed

theorem empty_message_rejected_witness:
  "serve (runtime_with failing_client) (post_message None) =
     \<lparr>response = \<lparr>status = 400, headers = json_headers,
                   body = Some [(''error'', str ''Message is required'')]\<rparr>,
      console = [], queries = []\<rparr> \<and>
   serve (runtime_with failing_client) (post_message (Some (JString []))) =
     \<lparr>response = \<lparr>status = 400, headers = json_headers,
                   body = Some [(''error'', str ''Message is required'')]\<rparr>,
      console = [], queries = []\<rparr> \<and>
   status (response (serve (runtime_with failing_client)
                       (post_message (Some (JString (str ''hello'')))))) = 200 \<and>
   console (serve (runtime_with failing_client) (post_message (Some (JString (str ''hello''))))) =
     [Console_log (str ''Detected intent: greeting for message: hello'')]"
proof -
  let ?rt = "runtime_with failing_client"
  have m: "http_method (post_message v) \<noteq> str ''OPTIONS''" for v
    by (simp add: post_message_def str_def)
  have j: "json (post_message v) = Inr (Json_object (Map.empty(str ''message'' := v)))" for v
    by (simp add: post_message_def)
  have c: "createClient ?rt = Inr failing_client" "unicode ?rt = identity_lower"
    by (simp_all add: runtime_with_def)
  have n: "str ''hello'' \<noteq> []" by (simp add: str_def)
  have l: "str ''Detected intent: '' @ str ''greeting'' @ str '' for message: '' @ str ''hello'' =
           str ''Detected intent: greeting for message: hello''"
    by (simp add: str_def)
  have "serve ?rt (post_message None) =
     \<lparr>response = \<lparr>status = 400, headers = json_headers,
                   body = Some [(''error'', str ''Message is required'')]\<rparr>,
      console = [], queries = []\<rparr>"
    using empty_message_rejected [OF m j, of None ?rt] by simp
  moreover have "serve ?rt (post_message (Some (JString []))) =
     \<lparr>response = \<lparr>status = 400, headers = json_headers,
                   body = Some [(''error'', str ''Message is required'')]\<rparr>,
      console = [], queries = []\<rparr>"
    using empty_message_rejected [OF m j, of "Some (JString [])" ?rt] by simp
  moreover have "status (response (serve ?rt (post_message (Some (JString (str ''hello'')))))) = 200 \<and>
     console (serve ?rt (post_message (Some (JString (str ''hello''))))) =
       [Console_log (str ''Detected intent: greeting for message: hello'')]"
    using empty_message_rejected [OF m j, of "Some (JString (str ''hello''))" ?rt] n c
    by (simp add: detect_hello l)
  ultimately show ?thesis by blast
qed

text \<open>
  C4 as the specification states it, with whitespace-only messages among the rejected ones,
  fails: a message of three spaces is truthy, so the handler classifies it (as \<open>fallback\<close>),
  logs the intent and answers with status 200.
\<close>
theorem whitespace_message_accepted:
  "response (serve (runtime_with failing_client) (post_message (Some (JString (str ''   ''))))) =
     \<lparr>status = 200, headers = json_headers,
      body = Some [(''intent'', str ''fallback''), (''response'', fallback_text)]\<rparr> \<and>
   console (serve (runtime_with failing_client) (post_message (Some (JString (str ''   ''))))) =
     [Console_log (str ''Detected intent: fallback for message:    '')] \<and>
   status (response (serve (runtime_with failing_client) (post_message (Some (JString (str ''   '')))))) \<noteq> 400"
proof -
  let ?req = "post_message (Some (JString (str ''   '')))"
  let ?rt = "runtime_with failing_client"
  have m: "http_method ?req \<noteq> str ''OPTIONS''" by (simp add: post_message_def str_def)
  have j: "json ?req = Inr (Json_object (Map.empty(str ''message'' \<mapsto> JString (str ''   ''))))"
    by (simp add: post_message_def)
  have d: "destructure_message ?rt (Json_object (Map.empty(str ''message'' \<mapsto> JString (str ''   ''))))
           = Inr (JString (str ''   ''))"
    by (simp add: destructure_message_def)
  have n: "str ''   '' \<noteq> []" by (simp add: str_def)
  have c: "createClient ?rt = Inr failing_client" "unicode ?rt = identity_lower"
    by (simp_all add: runtime_with_def)
  have g: "generateResponse identity_lower (str ''fallback'') (str ''   '') failing_client
           = ([], fallback_text)"
    by (simp add: generateResponse_def label_neq)
  have l: "str ''Detected intent: '' @ str ''fallback'' @ str '' for message: '' @ str ''   '' =
           str ''Detected intent: fallback for message:    ''"
    by (simp add: str_def)
  show ?thesis
    using try_block_string [OF j d n c(1)] m
    by (simp add: serve_not_options c(2) detect_blank g l)
qed

text \<open>
  C8. Result contract of the boundary: a request with a non-empty string as \<open>message\<close> for
  which the client is created is answered with status 200 and \<open>{intent, response}\<close>, the
  intent being the label \<open>detectIntent\<close> gives and the response the text \<open>generateResponse\<close>
  gives for it; an outcome without a fault is this one or the rejection; every fault thrown
  in the \<open>try\<close> block is caught, logged and answered with status 500, the message of the
  fault (when it has a non-empty one), the marker \<open>intent: "error"\<close> and the fixed apology;
  and \<open>error\<close> is never a label that \<open>detectIntent\<close> returns.
\<close>
theorem boundary_result_contract:
  assumes "http_method req \<noteq> str ''OPTIONS''"
  shows
    "(\<forall>b msg c. json req = Inr b \<and> destructure_message rt b = Inr (JString msg) \<and> msg \<noteq> [] \<and>
        createClient rt = Inr c \<longrightarrow>
        response (serve rt req) =
          \<lparr>status = 200, headers = json_headers,
           body = Some [(''intent'', detectIntent (unicode rt) msg),
                        (''response'',
                         snd (generateResponse (unicode rt) (detectIntent (unicode rt) msg) msg c))]\<rparr>) \<and>
     (\<forall>out. try_block rt req = Inr out \<longrightarrow>
        serve rt req = out \<and>
        (out = bad_request \<or>
         (\<exists>b msg c. json req = Inr b \<and> destructure_message rt b = Inr (JString msg) \<and>
            msg \<noteq> [] \<and> createClient rt = Inr c))) \<and>
     (\<forall>error. try_block rt req = Inl error \<longrightarrow>
        response (serve rt req) =
          \<lparr>status = 500, headers = json_headers,
           body = Some [(''error'', error_text error), (''intent'', str ''error''),
                        (''response'',
                         str ''I'm sorry, I encountered an error processing your request. Please try again.'')]\<rparr> \<and>
        console (serve rt req) = [Console_error error]) \<and>
     (\<forall>msg. fault_message e = Some msg \<and> msg \<noteq> [] \<longrightarrow> error_text e = msg) \<and>
     detectIntent U m \<noteq> str ''error''"
proof -
  have "response (serve rt req) =
          \<lparr>status = 200, headers = json_headers,
           body = Some [(''intent'', detectIntent (unicode rt) msg),
                        (''response'',
                         snd (generateResponse (unicode rt) (detectIntent (unicode rt) msg) msg c))]\<rparr>"
    if "json req = Inr b" "destructure_message rt b = Inr (JString msg)" "msg \<noteq> []"
      "createClient rt = Inr c" for b msg c
    using try_block_string [OF that] assms by (simp add: serve_not_options)
  moreover have "serve rt req = out \<and>
        (out = bad_request \<or>
         (\<exists>b msg c. json req = Inr b \<and> destructure_message rt b = Inr (JString msg) \<and>
            msg \<noteq> [] \<and> createClient rt = Inr c))"
    if "try_block rt req = Inr out" for out
    using try_block_outcomes [OF that] that assms by (simp add: serve_not_options)
  moreover have "response (serve rt req) =
          \<lparr>status = 500, headers = json_headers,
           body = Some [(''error'', error_text error), (''intent'', str ''error''),
                        (''response'',
                         str ''I'm sorry, I encountered an error processing your request. Please try again.'')]\<rparr> \<and>
        console (serve rt req) = [Console_error error]"
    if "try_block rt req = Inl error" for error
    using that assms by (simp add: serve_not_options error_response_def apology_text_def)
  ultimately show ?thesis
    using error_text_message [of e] detectIntent_not_error [of U m] by blast
qed

theorem boundary_result_contract_witness:
  "response (serve (runtime_with failing_client) (post_message (Some (JString (str ''hello''))))) =
     \<lparr>status = 200, headers = json_headers,
      body = Some [(''intent'', str ''greeting''), (''response'', greeting_text)]\<rparr> \<and>
   try_block (runtime_with failing_client) (post_message (Some (JNumber 5))) =
     Inl (Fault (Some (str ''message.toLowerCase is not a function''))) \<and>
   response (serve (runtime_with failing_client) (post_message (Some (JNumber 5)))) =
     \<lparr>status = 500, headers = json_headers,
      body = Some [(''error'', str ''message.toLowerCase is not a function''),
                   (''intent'', str ''error''),
                   (''response'',
                    str ''I'm sorry, I encountered an error processing your request. Please try again.'')]\<rparr>"
proof -
  let ?rt = "runtime_with failing_client"
  have m: "http_method (post_message v) \<noteq> str ''OPTIONS''" for v by (simp add: post_message_def str_def)
  have j: "json (post_message v) = Inr (Json_object (Map.empty(str ''message'' := v)))" for v
    by (simp add: post_message_def)
  have d: "destructure_message ?rt (Json_object (Map.empty(str ''message'' \<mapsto> JString (str ''hello''))))
           = Inr (JString (str ''hello''))"
    by (simp add: destructure_message_def)
  have n: "str ''hello'' \<noteq> []" by (simp add: str_def)
  have c: "createClient ?rt = Inr failing_client" "unicode ?rt = identity_lower"
    by (simp_all add: runtime_with_def)
  have g: "generateResponse identity_lower (str ''greeting'') (str ''hello'') failing_client
           = ([], greeting_text)"
    by (simp add: generateResponse_def)
  have t: "try_block ?rt (post_message (Some (JNumber 5))) =
           Inl (Fault (Some (str ''message.toLowerCase is not a function'')))"
    by (simp add: try_block_def post_message_def destructure_message_def runtime_with_def)
  have x: "error_text (Fault (Some (str ''message.toLowerCase is not a function''))) =
           str ''message.toLowerCase is not a function''"
    by (simp add: error_text_def str_def)
  from boundary_result_contract [OF m, of "Some (JString (str ''hello''))" ?rt]
  have "response (serve ?rt (post_message (Some (JString (str ''hello''))))) =
     \<lparr>status = 200, headers = json_headers,
      body = Some [(''intent'', str ''greeting''), (''response'', greeting_text)]\<rparr>"
    using j d n c by (simp add: detect_hello g)
  moreover from boundary_result_contract [OF m, of "Some (JNumber 5)" ?rt]
  have "response (serve ?rt (post_message (Some (JNumber 5)))) =
     \<lparr>status = 500, headers = json_headers,
      body = Some [(''error'', str ''message.toLowerCase is not a function''),
                   (''intent'', str ''error''),
                   (''response'',
                    str ''I'm sorry, I encountered an error processing your request. Please try again.'')]\<rparr>"
    using t x by simp
  ultimately show ?thesis using t by simp
qed

end
